theory Spec2Isabelle
  imports Main
begin

section \<open>The Collection model (src/models/Collection.js)\<close>

text \<open>
  A collection is the publish queue of the system: an ordered array of items, a
  scheduling configuration and derived statistics. Dates are JavaScript \<open>Date\<close>
  values, modelled by their time value: milliseconds since the epoch, as an \<open>int\<close>.
  An absent optional field (\<open>undefined\<close>) is \<open>None\<close>. Object ids are compared through
  \<open>toString()\<close> in the source and are modelled by that string.
\<close>

record position =
  row :: int
  col :: int

record item =
  contentId :: string
  position :: position
  order :: int
  posted :: bool
  postedAt :: "int option"
  postId :: "string option"
  postUrl :: "string option"

datatype interval = Daily | EveryOtherDay | Weekly | Custom

record posting_time =
  hour :: int
  minute :: int
  timezone :: string

record scheduling =
  enabled :: bool
  startDate :: "int option"
  endDate :: "int option"
  interval :: interval
  customIntervalHours :: "int option"
  postingTimes :: "posting_time list"
  autoPost :: bool
  postSequentially :: bool

record stats =
  totalItems :: nat
  postedItems :: nat
  failedItems :: nat
  lastPostedAt :: "int option"
  nextPostAt :: "int option"

record error_entry =
  err_timestamp :: int
  err_itemIndex :: int
  errorMessage :: string
  errorCode :: string

text \<open>The fields of the schema that the methods below read or write, and the
  platform and status of the queue.\<close>

record collection =
  platform :: string
  items :: "item list"
  scheduling :: scheduling
  status :: string
  stats :: stats
  errors :: "error_entry list"
  updatedAt :: int

record post_data =
  pd_postId :: "string option"
  pd_postUrl :: "string option"

subsection \<open>The pre-save hook and the mutating methods\<close>

text \<open>
  \<open>save()\<close> runs the \<open>pre('save')\<close> hook of the schema and then persists the document;
  persistence is outside the model, so \<open>save\<close> is the hook. The clock is a parameter
  \<open>now\<close>: one operation reads it at one instant.
\<close>

definition save :: "int \<Rightarrow> collection \<Rightarrow> collection" where
  "save now c =
     c\<lparr>updatedAt := now,
       stats := (stats c)\<lparr>totalItems := length (items c),
                          postedItems := length (filter posted (items c)),
                          failedItems := length (errors c)\<rparr>\<rparr>"

definition addContent :: "string \<Rightarrow> position \<Rightarrow> int \<Rightarrow> collection \<Rightarrow> collection" where
  "addContent cid pos now c =
     (let ord = int (length (items c))
      in save now
           (c\<lparr>items := items c @
                [\<lparr>contentId = cid, position = pos, order = ord, posted = False,
                  postedAt = None, postId = None, postUrl = None\<rparr>]\<rparr>))"

text \<open>\<open>items.forEach((item, index) => item.order = index)\<close>, from index \<open>i\<close> on.\<close>

fun renumber :: "nat \<Rightarrow> item list \<Rightarrow> item list" where
  "renumber i [] = []"
| "renumber i (it # its) = it\<lparr>order := int i\<rparr> # renumber (Suc i) its"

definition removeContent :: "string \<Rightarrow> int \<Rightarrow> collection \<Rightarrow> collection" where
  "removeContent cid now c =
     save now (c\<lparr>items := renumber 0 (filter (\<lambda>it. contentId it \<noteq> cid) (items c))\<rparr>)"

text \<open>\<open>Array.prototype.findIndex\<close>: the first index whose element satisfies \<open>P\<close>;
  \<open>None\<close> is the source's \<open>-1\<close>.\<close>

fun findIndex :: "('a \<Rightarrow> bool) \<Rightarrow> 'a list \<Rightarrow> nat option" where
  "findIndex P [] = None"
| "findIndex P (x # xs) =
     (if P x then Some 0 else map_option Suc (findIndex P xs))"

text \<open>
  \<open>reorderContent\<close> returns early, without saving, when no item has the content id:
  the document is then left as it was.
\<close>

definition reorderContent :: "string \<Rightarrow> position \<Rightarrow> int \<Rightarrow> collection \<Rightarrow> collection" where
  "reorderContent cid newPosition now c =
     (case findIndex (\<lambda>it. contentId it = cid) (items c) of
        None \<Rightarrow> c
      | Some i \<Rightarrow>
          save now
            (c\<lparr>items := (items c)[i := (items c ! i)\<lparr>position := newPosition\<rparr>]\<rparr>))"

text \<open>
  \<open>markAsPosted\<close> looks the item up with \<open>Array.prototype.find\<close> and mutates that one
  element in place; the model updates the element at the index \<open>find\<close> stops at.
\<close>

definition markAsPosted :: "string \<Rightarrow> post_data \<Rightarrow> int \<Rightarrow> collection \<Rightarrow> collection" where
  "markAsPosted cid postData now c =
     (case findIndex (\<lambda>it. contentId it = cid) (items c) of
        None \<Rightarrow> save now c
      | Some i \<Rightarrow>
          save now
            (c\<lparr>items := (items c)[i := (items c ! i)\<lparr>posted := True,
                                                    postedAt := Some now,
                                                    postId := pd_postId postData,
                                                    postUrl := pd_postUrl postData\<rparr>],
               stats := (stats c)\<lparr>lastPostedAt := Some now\<rparr>\<rparr>))"

subsection \<open>Due-time computation\<close>














definition getNextItemToPost :: "collection \<Rightarrow> item option" where
  "getNextItemToPost c = find (\<lambda>it. \<not> posted it) (items c)"

subsection \<open>The reorder endpoint of the collection controller\<close>

text \<open>
  \<open>exports.reorderContent\<close> of the collection controller (drag and drop) receives a
  list of \<open>{contentId, position, order}\<close>, writes \<open>position\<close> and \<open>order\<close> onto the
  matching items, and saves. It does not move the elements of the \<open>items\<close> array.
  The checks before the loop (the id is valid, the collection exists and belongs to
  the user, \<open>settings.allowReordering\<close>) are taken as passed.
\<close>

record reorder_update =
  upd_contentId :: string
  upd_position :: "position option"
  upd_order :: "int option"

definition applyUpdate :: "reorder_update \<Rightarrow> item list \<Rightarrow> item list" where
  "applyUpdate u its =
     (case findIndex (\<lambda>it. contentId it = upd_contentId u) its of
        None \<Rightarrow> its
      | Some i \<Rightarrow>
          (let it1 = (case upd_position u of
                        Some p \<Rightarrow> (its ! i)\<lparr>position := p\<rparr>
                      | None \<Rightarrow> its ! i);
               it2 = (case upd_order u of
                        Some k \<Rightarrow> it1\<lparr>order := k\<rparr>
                      | None \<Rightarrow> it1)
           in its[i := it2]))"

definition controllerReorderContent :: "reorder_update list \<Rightarrow> int \<Rightarrow> collection \<Rightarrow> collection" where
  "controllerReorderContent updates now c =
     save now (c\<lparr>items := fold applyUpdate updates (items c)\<rparr>)"

subsection \<open>Sequences of queue operations\<close>

datatype queue_op =
    AddContent string position
  | RemoveContent string
  | ReorderContent string position
  | MarkAsPosted string post_data

fun apply_op :: "int \<Rightarrow> queue_op \<Rightarrow> collection \<Rightarrow> collection" where
  "apply_op now (AddContent cid pos) c = addContent cid pos now c"
| "apply_op now (RemoveContent cid) c = removeContent cid now c"
| "apply_op now (ReorderContent cid pos) c = reorderContent cid pos now c"
| "apply_op now (MarkAsPosted cid pd) c = markAsPosted cid pd now c"

text \<open>A run is a list of operations, each with the clock reading at which it happens.\<close>

fun run_ops :: "(int \<times> queue_op) list \<Rightarrow> collection \<Rightarrow> collection" where
  "run_ops [] c = c"
| "run_ops ((now, op) # ops) c = run_ops ops (apply_op now op c)"



definition stats_consistent :: "collection \<Rightarrow> bool" where
  "stats_consistent c \<longleftrightarrow>
     postedItems (stats c) = length (filter posted (items c)) \<and>
     totalItems (stats c) = length (items c)"

definition contiguous_orders :: "collection \<Rightarrow> bool" where
  "contiguous_orders c \<longleftrightarrow> map order (items c) = map int [0..<length (items c)]"

text \<open>Example data used by the concrete instances below.\<close>

definition pos0 :: position where
  "pos0 = \<lparr>row = 0, col = 0\<rparr>"

definition emptyCollection :: collection where
  "emptyCollection =
     \<lparr>platform = ''instagram'', items = [],
      scheduling = \<lparr>enabled = False, startDate = None, endDate = None, interval = Daily,
                    customIntervalHours = None, postingTimes = [], autoPost = False,
                    postSequentially = True\<rparr>,
      status = ''draft'',
      stats = \<lparr>totalItems = 0, postedItems = 0, failedItems = 0, lastPostedAt = None,
               nextPostAt = None\<rparr>,
      errors = [], updatedAt = 0\<rparr>"



text \<open>
  Two items added in the order \<open>a\<close>, \<open>b\<close>, then swapped by drag and drop: the
  controller gives \<open>a\<close> the order 1 and \<open>b\<close> the order 0.
\<close>

definition twoItems :: collection where
  "twoItems = run_ops [(1, AddContent ''a'' pos0), (2, AddContent ''b'' pos0)] emptyCollection"

definition reorderedQueue :: collection where
  "reorderedQueue =
     controllerReorderContent
       [\<lparr>upd_contentId = ''a'', upd_position = None, upd_order = Some 1\<rparr>,
        \<lparr>upd_contentId = ''b'', upd_position = None, upd_order = Some 0\<rparr>] 3 twoItems"

definition pd1 :: post_data where
  "pd1 = \<lparr>pd_postId = Some ''p1'', pd_postUrl = Some ''https://example.org/p1''\<rparr>"



section \<open>The posting service (src/services/socialMediaService.js)\<close>

subsection \<open>Media URLs\<close>

text \<open>\<open>String.prototype.startsWith\<close>.\<close>

definition startsWith :: "string \<Rightarrow> string \<Rightarrow> bool" where
  "startsWith s p \<longleftrightarrow> take (length p) s = p"

text \<open>
  \<open>path.basename\<close> of Node, POSIX flavour: trailing slashes are ignored, the result
  is what follows the last remaining slash, and a path made of slashes only has the
  empty basename.
\<close>

definition basename :: "string \<Rightarrow> string" where
  "basename p =
     rev (takeWhile (\<lambda>ch. ch \<noteq> CHR ''/'') (dropWhile (\<lambda>ch. ch = CHR ''/'') (rev p)))"

text \<open>
  \<open>getPublicMediaUrl\<close> reads \<open>process.env.FRONTEND_URL\<close>; the model takes it as the
  argument \<open>frontendUrl\<close>, \<open>None\<close> when the variable is unset. \<open>x || d\<close> on a string
  takes \<open>d\<close> when \<open>x\<close> is undefined or empty.
\<close>

definition getPublicMediaUrl :: "string option \<Rightarrow> string \<Rightarrow> string" where
  "getPublicMediaUrl frontendUrl mediaPath =
     (if startsWith mediaPath ''http://'' \<or> startsWith mediaPath ''https://''
      then mediaPath
      else (let baseUrl = (case frontendUrl of
                             None \<Rightarrow> ''http://localhost:3000''
                           | Some u \<Rightarrow> if u = [] then ''http://localhost:3000'' else u)
            in baseUrl @ ''/uploads/'' @ basename mediaPath))"

definition frontend_is_http :: "string option \<Rightarrow> bool" where
  "frontend_is_http frontendUrl \<longleftrightarrow>
     (case frontendUrl of
        None \<Rightarrow> True
      | Some u \<Rightarrow> u = [] \<or> startsWith u ''http://'' \<or> startsWith u ''https://'')"

subsection \<open>Errors, requests and the remote platforms\<close>

text \<open>
  A thrown JavaScript error: its \<open>message\<close>, and for an error thrown by axios the
  message of the remote's error body (\<open>error.response?.data?.error?.message\<close>) when
  there is one. A function that can throw returns \<open>js_error + 'a\<close>: \<open>Inl\<close> is the
  exception, \<open>Inr\<close> the returned value.
\<close>

record js_error =
  message :: string
  response_message :: "string option"

text \<open>\<open>new Error(m)\<close>.\<close>

definition mkError :: "string \<Rightarrow> js_error" where
  "mkError m = \<lparr>message = m, response_message = None\<rparr>"

text \<open>\<open>error.response?.data?.error?.message || error.message\<close>.\<close>

definition errText :: "js_error \<Rightarrow> string" where
  "errText e =
     (case response_message e of
        None \<Rightarrow> message e
      | Some m \<Rightarrow> if m = [] then message e else m)"

text \<open>JSON values of request bodies, query parameters and headers.\<close>

datatype jv = JUndefined | JStr string | JNum int | JBool bool | JObj "(string \<times> jv) list"

record request =
  req_method :: string
  req_url :: string
  req_payload :: jv
  req_headers :: "(string \<times> jv) list"

text \<open>
  The fields of a response body that the service reads: \<open>data.id\<close>,
  \<open>data.status_code\<close>, \<open>data.permalink\<close> (Instagram) and \<open>data.data.publish_id\<close>,
  \<open>data.data.upload_url\<close>, \<open>data.data.status\<close> (TikTok). Responses are taken to be
  well formed: each carries the fields read from it.
\<close>

record response =
  data_id :: string
  data_status_code :: string
  data_permalink :: string
  data_publish_id :: string
  data_upload_url :: string
  data_status :: string

text \<open>
  The remote platforms are a parameter: any function from the requests sent so far
  and the current request to a response or a rejection (axios throws on a rejection
  and on a network failure). The state of a run is the log of requests sent and the
  clock; \<open>setTimeout\<close> waits advance the clock, \<open>new Date()\<close> reads it.
\<close>

type_synonym remote = "request list \<Rightarrow> request \<Rightarrow> js_error + response"

record tstate =
  log :: "request list"
  clock :: int

definition axios :: "remote \<Rightarrow> request \<Rightarrow> tstate \<Rightarrow> (js_error + response) \<times> tstate" where
  "axios R req s = (R (log s) req, s\<lparr>log := log s @ [req]\<rparr>)"

definition sleep :: "int \<Rightarrow> tstate \<Rightarrow> tstate" where
  "sleep ms s = s\<lparr>clock := clock s + ms\<rparr>"

text \<open>
  \<open>await\<close> inside \<open>try\<close>: an exception of the awaited call leaves the block, a value
  goes on to the rest of it.
\<close>

definition andThen ::
  "(js_error + 'a) \<times> tstate \<Rightarrow> ('a \<Rightarrow> tstate \<Rightarrow> (js_error + 'b) \<times> tstate) \<Rightarrow>
   (js_error + 'b) \<times> tstate" where
  "andThen m f =
     (case m of
        (Inl e, s) \<Rightarrow> (Inl e, s)
      | (Inr x, s) \<Rightarrow> f x s)"

text \<open>
  \<open>catch (error) { throw new Error(prefix + (error.response?.data?.error?.message
  || error.message)) }\<close>.
\<close>

definition catchWrap ::
  "string \<Rightarrow> (js_error + 'a) \<times> tstate \<Rightarrow> (js_error + 'a) \<times> tstate" where
  "catchWrap prefix m =
     (case m of
        (Inl e, s) \<Rightarrow> (Inl (mkError (prefix @ errText e)), s)
      | (Inr x, s) \<Rightarrow> (Inr x, s))"

subsection \<open>Accounts, content and options\<close>

record social_account =
  connected :: bool
  accessToken :: "string option"
  refreshToken :: "string option"
  acc_userId :: "string option"
  username :: "string option"
  expiresAt :: "int option"

record social_accounts =
  instagram :: "social_account option"
  tiktok :: "social_account option"

record user =
  socialAccounts :: social_accounts

record content =
  mediaType :: string
  mediaUrl :: string
  caption :: "string option"
  title :: "string option"
  fileSize :: "int option"
  content_platform :: "string option"

record options =
  opt_caption :: "string option"
  opt_platform :: "string option"
  privacyLevel :: "string option"
  disableDuet :: "bool option"
  disableComment :: "bool option"
  disableStitch :: "bool option"

record post_result =
  res_success :: bool
  res_platform :: string
  res_postId :: string
  res_postUrl :: string
  res_timestamp :: int

text \<open>
  What the environment supplies besides the remote: \<open>process.env.FRONTEND_URL\<close> and
  \<open>fs.readFileSync\<close>, which throws when the file cannot be read.
\<close>

record env =
  remote :: remote
  FRONTEND_URL :: "string option"
  readFileSync :: "string \<Rightarrow> js_error + string"

text \<open>
  \<open>a || b\<close> on optional strings (undefined and the empty string are falsy), the
  truthiness of an optional string, \<open>b || false\<close> on an optional boolean, a template
  literal slot, and \<open>d < new Date()\<close> for an optional date (\<open>undefined < date\<close> is
  false).
\<close>

definition orElse :: "string option \<Rightarrow> string option \<Rightarrow> string option" where
  "orElse a b = (case a of None \<Rightarrow> b | Some x \<Rightarrow> if x = [] then b else Some x)"

definition truthy :: "string option \<Rightarrow> bool" where
  "truthy a \<longleftrightarrow> (case a of None \<Rightarrow> False | Some x \<Rightarrow> x \<noteq> [])"

definition orFalse :: "bool option \<Rightarrow> bool" where
  "orFalse b = (case b of None \<Rightarrow> False | Some x \<Rightarrow> x)"

definition tpl :: "string option \<Rightarrow> string" where
  "tpl a = (case a of None \<Rightarrow> ''undefined'' | Some x \<Rightarrow> x)"

definition jstr :: "string option \<Rightarrow> jv" where
  "jstr a = (case a of None \<Rightarrow> JUndefined | Some x \<Rightarrow> JStr x)"

definition isBefore :: "int option \<Rightarrow> int \<Rightarrow> bool" where
  "isBefore d t \<longleftrightarrow> (case d of None \<Rightarrow> False | Some x \<Rightarrow> x < t)"

text \<open>Reading a property of \<open>undefined\<close>.\<close>

definition typeError :: "string \<Rightarrow> js_error" where
  "typeError prop =
     mkError (''Cannot read properties of undefined (reading '' @ [CHR 0x27] @ prop @
              [CHR 0x27] @ '')'')"

subsection \<open>Instagram\<close>

definition igUrl :: "string \<Rightarrow> string" where
  "igUrl rest = ''https://graph.instagram.com/v18.0/'' @ rest"

definition igPublishRequest :: "string option \<Rightarrow> string \<Rightarrow> string \<Rightarrow> request" where
  "igPublishRequest userId creationId token =
     \<lparr>req_method = ''POST'', req_url = igUrl (tpl userId @ ''/media_publish''),
      req_payload = JObj [(''creation_id'', JStr creationId), (''access_token'', JStr token)],
      req_headers = []\<rparr>"

definition igPermalinkRequest :: "string \<Rightarrow> string \<Rightarrow> request" where
  "igPermalinkRequest post_id token =
     \<lparr>req_method = ''GET'', req_url = igUrl post_id,
      req_payload = JObj [(''fields'', JStr ''permalink''), (''access_token'', JStr token)],
      req_headers = []\<rparr>"

definition igStatusRequest :: "string \<Rightarrow> string \<Rightarrow> request" where
  "igStatusRequest creationId token =
     \<lparr>req_method = ''GET'', req_url = igUrl creationId,
      req_payload = JObj [(''fields'', JStr ''status_code''), (''access_token'', JStr token)],
      req_headers = []\<rparr>"

definition captionOf :: "options \<Rightarrow> content \<Rightarrow> string" where
  "captionOf opts c = tpl (orElse (orElse (opt_caption opts) (caption c)) (Some []))"

text \<open>Step 1 of the image path and of the video path: the media container.\<close>

definition igImageRequest ::
  "env \<Rightarrow> string option \<Rightarrow> string \<Rightarrow> content \<Rightarrow> options \<Rightarrow> request" where
  "igImageRequest E userId token c opts =
     \<lparr>req_method = ''POST'', req_url = igUrl (tpl userId @ ''/media''),
      req_payload =
        JObj [(''image_url'', JStr (getPublicMediaUrl (FRONTEND_URL E) (mediaUrl c))),
              (''caption'', JStr (captionOf opts c)),
              (''access_token'', JStr token)],
      req_headers = []\<rparr>"

definition igVideoRequest ::
  "env \<Rightarrow> string option \<Rightarrow> string \<Rightarrow> content \<Rightarrow> options \<Rightarrow> request" where
  "igVideoRequest E userId token c opts =
     \<lparr>req_method = ''POST'', req_url = igUrl (tpl userId @ ''/media''),
      req_payload =
        JObj [(''media_type'', JStr ''VIDEO''),
              (''video_url'', JStr (getPublicMediaUrl (FRONTEND_URL E) (mediaUrl c))),
              (''caption'', JStr (captionOf opts c)),
              (''access_token'', JStr token)],
      req_headers = []\<rparr>"

text \<open>Steps 2 and 3 of the image path, which are steps 3 and 4 of the video path.\<close>

definition igPublishAndLink ::
  "env \<Rightarrow> string option \<Rightarrow> string \<Rightarrow> string \<Rightarrow> tstate \<Rightarrow> (js_error + post_result) \<times> tstate" where
  "igPublishAndLink E userId token creationId s =
     andThen (axios (remote E) (igPublishRequest userId creationId token) s)
       (\<lambda>publishResponse s1.
          let post_id = data_id publishResponse
          in andThen (axios (remote E) (igPermalinkRequest post_id token) s1)
               (\<lambda>permalinkResponse s2.
                  (Inr \<lparr>res_success = True, res_platform = ''instagram'', res_postId = post_id,
                        res_postUrl = data_permalink permalinkResponse,
                        res_timestamp = clock s2\<rparr>, s2)))"

definition postInstagramImage ::
  "env \<Rightarrow> string option \<Rightarrow> string \<Rightarrow> content \<Rightarrow> options \<Rightarrow> tstate \<Rightarrow>
   (js_error + post_result) \<times> tstate" where
  "postInstagramImage E userId token c opts s =
     catchWrap ''Instagram posting failed: ''
       (andThen
          (axios (remote E) (igImageRequest E userId token c opts) s)
          (\<lambda>containerResponse s1.
             igPublishAndLink E userId token (data_id containerResponse) s1))"

definition igMaxAttempts :: nat where
  "igMaxAttempts = 20"

text \<open>
  The polling loop of the video path, \<open>while (!isReady && attempts < maxAttempts)\<close>,
  with its two loop variables. It returns the final \<open>isReady\<close>, or the exception that
  left the loop.
\<close>

function igPoll ::
  "env \<Rightarrow> string \<Rightarrow> string \<Rightarrow> bool \<Rightarrow> nat \<Rightarrow> tstate \<Rightarrow> (js_error + bool) \<times> tstate" where
  "igPoll E creationId token isReady attempts s =
     (if \<not> isReady \<and> attempts < igMaxAttempts
      then (case axios (remote E) (igStatusRequest creationId token) (sleep 6000 s) of
              (Inl e, s1) \<Rightarrow> (Inl e, s1)
            | (Inr statusResponse, s1) \<Rightarrow>
                if data_status_code statusResponse = ''FINISHED''
                then igPoll E creationId token True (attempts + 1) s1
                else if data_status_code statusResponse = ''ERROR''
                then (Inl (mkError ''Video processing failed''), s1)
                else igPoll E creationId token isReady (attempts + 1) s1)
      else (Inr isReady, s))"
  by pat_completeness auto
termination
  by (relation "measure (\<lambda>(E, creationId, token, isReady, attempts, s). igMaxAttempts - attempts)")
     auto

declare igPoll.simps [simp del]

definition postInstagramVideo ::
  "env \<Rightarrow> string option \<Rightarrow> string \<Rightarrow> content \<Rightarrow> options \<Rightarrow> tstate \<Rightarrow>
   (js_error + post_result) \<times> tstate" where
  "postInstagramVideo E userId token c opts s =
     catchWrap ''Instagram video posting failed: ''
       (andThen
          (axios (remote E) (igVideoRequest E userId token c opts) s)
          (\<lambda>containerResponse s1.
             let creationId = data_id containerResponse
             in andThen (igPoll E creationId token False 0 s1)
                  (\<lambda>isReady s2.
                     if \<not> isReady then (Inl (mkError ''Video processing timeout''), s2)
                     else igPublishAndLink E userId token creationId s2)))"

definition postInstagramCarousel ::
  "env \<Rightarrow> string option \<Rightarrow> string \<Rightarrow> content \<Rightarrow> options \<Rightarrow> tstate \<Rightarrow>
   (js_error + post_result) \<times> tstate" where
  "postInstagramCarousel E userId token c opts s =
     (Inl (mkError ''Carousel posting not yet implemented''), s)"

text \<open>The \<open>catch\<close> of \<open>postToInstagram\<close> logs the error and throws it again unchanged.\<close>

definition postToInstagram ::
  "env \<Rightarrow> user \<Rightarrow> content \<Rightarrow> options \<Rightarrow> tstate \<Rightarrow> (js_error + post_result) \<times> tstate" where
  "postToInstagram E u c opts s =
     (case instagram (socialAccounts u) of
        None \<Rightarrow> (Inl (typeError ''connected''), s)
      | Some acc \<Rightarrow>
          if \<not> connected acc then (Inl (mkError ''Instagram account not connected''), s)
          else if \<not> truthy (accessToken acc)
          then (Inl (mkError ''Instagram access token missing''), s)
          else if isBefore (expiresAt acc) (clock s)
          then (Inl (mkError
                  ''Instagram access token expired. Please reconnect your account.''), s)
          else (let token = tpl (accessToken acc); userId = acc_userId acc
                in if mediaType c = ''image'' then postInstagramImage E userId token c opts s
                   else if mediaType c = ''video'' then postInstagramVideo E userId token c opts s
                   else if mediaType c = ''carousel''
                   then postInstagramCarousel E userId token c opts s
                   else (Inl (mkError (''Unsupported media type: '' @ mediaType c)), s)))"

subsection \<open>TikTok\<close>

definition ttStatusUrl :: string where
  "ttStatusUrl = ''https://open.tiktokapis.com/v2/post/publish/status/fetch/''"

definition ttHeaders :: "string \<Rightarrow> (string \<times> jv) list" where
  "ttHeaders token =
     [(''Authorization'', JStr (''Bearer '' @ token)),
      (''Content-Type'', JStr ''application/json; charset=UTF-8'')]"

definition ttInitRequest :: "string \<Rightarrow> content \<Rightarrow> options \<Rightarrow> request" where
  "ttInitRequest token c opts =
     \<lparr>req_method = ''POST'',
      req_url = ''https://open.tiktokapis.com/v2/post/publish/video/init/'',
      req_payload =
        JObj [(''post_info'',
                 JObj [(''title'', jstr (orElse (orElse (opt_caption opts) (caption c)) (title c))),
                       (''privacy_level'',
                          jstr (orElse (privacyLevel opts) (Some ''MUTUAL_FOLLOW_FRIENDS''))),
                       (''disable_duet'', JBool (orFalse (disableDuet opts))),
                       (''disable_comment'', JBool (orFalse (disableComment opts))),
                       (''disable_stitch'', JBool (orFalse (disableStitch opts))),
                       (''video_cover_timestamp_ms'', JNum 1000)]),
              (''source_info'',
                 JObj [(''source'', JStr ''FILE_UPLOAD''),
                       (''video_size'',
                          JNum (case fileSize c of None \<Rightarrow> 0 | Some n \<Rightarrow> n)),
                       (''chunk_size'', JNum 10000000),
                       (''total_chunk_count'', JNum 1)])],
      req_headers = ttHeaders token\<rparr>"

definition ttUploadRequest :: "string \<Rightarrow> string \<Rightarrow> request" where
  "ttUploadRequest uploadUrl videoBuffer =
     \<lparr>req_method = ''PUT'', req_url = uploadUrl, req_payload = JStr videoBuffer,
      req_headers = [(''Content-Type'', JStr ''video/mp4''),
                     (''Content-Length'', JNum (int (length videoBuffer)))]\<rparr>"

definition ttStatusRequest :: "string \<Rightarrow> string \<Rightarrow> request" where
  "ttStatusRequest publishId token =
     \<lparr>req_method = ''POST'', req_url = ttStatusUrl,
      req_payload = JObj [(''publish_id'', JStr publishId)],
      req_headers = ttHeaders token\<rparr>"

definition ttMaxAttempts :: nat where
  "ttMaxAttempts = 30"

text \<open>The polling loop, \<open>while (!publishComplete && attempts < maxAttempts)\<close>.\<close>

function ttPoll ::
  "env \<Rightarrow> string \<Rightarrow> string \<Rightarrow> bool \<Rightarrow> nat \<Rightarrow> tstate \<Rightarrow> (js_error + bool) \<times> tstate" where
  "ttPoll E publishId token publishComplete attempts s =
     (if \<not> publishComplete \<and> attempts < ttMaxAttempts
      then (case axios (remote E) (ttStatusRequest publishId token) (sleep 5000 s) of
              (Inl e, s1) \<Rightarrow> (Inl e, s1)
            | (Inr statusResponse, s1) \<Rightarrow>
                if data_status statusResponse = ''PUBLISH_COMPLETE''
                then ttPoll E publishId token True (attempts + 1) s1
                else if data_status statusResponse = ''FAILED''
                then (Inl (mkError ''TikTok publish failed''), s1)
                else ttPoll E publishId token publishComplete (attempts + 1) s1)
      else (Inr publishComplete, s))"
  by pat_completeness auto
termination
  by (relation "measure (\<lambda>(E, publishId, token, publishComplete, attempts, s).
                  ttMaxAttempts - attempts)")
     auto

declare ttPoll.simps [simp del]

text \<open>
  \<open>postToTikTok\<close>. The account has the fields \<open>connected\<close> and \<open>accessToken\<close> read
  before the upload and \<open>username\<close> read for the post url; \<open>expiresAt\<close> is not read.
\<close>

definition postToTikTok ::
  "env \<Rightarrow> user \<Rightarrow> content \<Rightarrow> options \<Rightarrow> tstate \<Rightarrow> (js_error + post_result) \<times> tstate" where
  "postToTikTok E u c opts s =
     catchWrap ''TikTok posting failed: ''
       (case tiktok (socialAccounts u) of
          None \<Rightarrow> (Inl (typeError ''connected''), s)
        | Some acc \<Rightarrow>
            if \<not> connected acc then (Inl (mkError ''TikTok account not connected''), s)
            else if \<not> truthy (accessToken acc)
            then (Inl (mkError ''TikTok access token missing''), s)
            else (let token = tpl (accessToken acc)
                  in if mediaType c \<noteq> ''video''
                     then (Inl (mkError ''TikTok only supports video content''), s)
                     else andThen (axios (remote E) (ttInitRequest token c opts) s)
                            (\<lambda>initResponse s1.
                               let publishId = data_publish_id initResponse;
                                   uploadUrl = data_upload_url initResponse
                               in andThen (readFileSync E (mediaUrl c), s1)
                                    (\<lambda>videoBuffer s2.
                                       andThen (axios (remote E)
                                                  (ttUploadRequest uploadUrl videoBuffer) s2)
                                         (\<lambda>uploadResponse s3.
                                            andThen (ttPoll E publishId token False 0 s3)
                                              (\<lambda>publishComplete s4.
                                                 if \<not> publishComplete
                                                 then (Inl (mkError ''TikTok publish timeout''), s4)
                                                 else (Inr \<lparr>res_success = True,
                                                            res_platform = ''tiktok'',
                                                            res_postId = publishId,
                                                            res_postUrl =
                                                              ''https://www.tiktok.com/@'' @
                                                              tpl (username acc) @ ''/video/'' @
                                                              publishId,
                                                            res_timestamp = clock s4\<rparr>, s4)))))))"

subsection \<open>Publishing to both platforms\<close>

text \<open>
  What a publish function returns: the result object of one platform, or the
  aggregate \<open>{instagram, tiktok, errors}\<close> of a publish to both, whose first two fields
  are null (\<open>None\<close>) or whatever the single publish returned.
\<close>

record platform_error =
  pe_platform :: string
  pe_error :: string

datatype publish_return =
    Single post_result
  | Both (r_instagram: "publish_return option") (r_tiktok: "publish_return option")
         (r_errors: "platform_error list")

definition single ::
  "(js_error + post_result) \<times> tstate \<Rightarrow> (js_error + publish_return) \<times> tstate" where
  "single m = (case m of (Inl e, s) \<Rightarrow> (Inl e, s) | (Inr r, s) \<Rightarrow> (Inr (Single r), s))"

text \<open>
  One \<open>try { results.x = await ... } catch (error) { results.errors.push({platform,
  error: error.message}) }\<close> block: the field value and the errors after it.
\<close>

definition tryPlatform ::
  "string \<Rightarrow> js_error + publish_return \<Rightarrow> platform_error list \<Rightarrow>
   publish_return option \<times> platform_error list" where
  "tryPlatform p r errs =
     (case r of
        Inr res \<Rightarrow> (Some res, errs)
      | Inl error \<Rightarrow> (None, errs @ [\<lparr>pe_platform = p, pe_error = message error\<rparr>]))"

definition postToBoth ::
  "env \<Rightarrow> user \<Rightarrow> content \<Rightarrow> options \<Rightarrow> tstate \<Rightarrow> publish_return \<times> tstate" where
  "postToBoth E u c opts s =
     (case single (postToInstagram E u c opts s) of
        (r1, s1) \<Rightarrow>
          (case tryPlatform ''instagram'' r1 [] of
             (ig, errs1) \<Rightarrow>
               (case single (postToTikTok E u c opts s1) of
                  (r2, s2) \<Rightarrow>
                    (case tryPlatform ''tiktok'' r2 errs1 of
                       (tt, errs2) \<Rightarrow> (Both ig tt errs2, s2)))))"

text \<open>
  The Profile model lies outside this development; the two operations the service
  calls on it are parameters: \<open>Profile.findById\<close> (null is \<open>None\<close>) and
  \<open>profile.getEffectiveConnection(platform)\<close>.
\<close>

record 'p profile_store =
  findById :: "string \<Rightarrow> 'p option"
  getEffectiveConnection :: "'p \<Rightarrow> string \<Rightarrow> social_account option"

definition getCredentialsForProfile ::
  "'p profile_store \<Rightarrow> string \<Rightarrow> string \<Rightarrow> social_account option" where
  "getCredentialsForProfile P profileId p =
     (case findById P profileId of
        None \<Rightarrow> None
      | Some profile \<Rightarrow> getEffectiveConnection P profile p)"

text \<open>The mock user object: \<open>socialAccounts\<close> has the one key \<open>[platform]\<close>.\<close>

definition userWithCredentials :: "string \<Rightarrow> social_account \<Rightarrow> user" where
  "userWithCredentials p credentials =
     \<lparr>socialAccounts =
        \<lparr>instagram = (if p = ''instagram'' then Some credentials else None),
         tiktok = (if p = ''tiktok'' then Some credentials else None)\<rparr>\<rparr>"

definition resolvePlatform :: "options \<Rightarrow> content \<Rightarrow> string" where
  "resolvePlatform opts c =
     tpl (orElse (orElse (opt_platform opts) (content_platform c)) (Some ''instagram''))"

function postWithProfile ::
    "'p profile_store \<Rightarrow> env \<Rightarrow> string \<Rightarrow> content \<Rightarrow> options \<Rightarrow> tstate \<Rightarrow>
     (js_error + publish_return) \<times> tstate"
  and postToBothWithProfile ::
    "'p profile_store \<Rightarrow> env \<Rightarrow> string \<Rightarrow> content \<Rightarrow> options \<Rightarrow> tstate \<Rightarrow>
     (js_error + publish_return) \<times> tstate"
where
  "postWithProfile P E profileId c opts s =
     (case findById P profileId of
        None \<Rightarrow> (Inl (mkError ''Profile not found''), s)
      | Some profile \<Rightarrow>
          (case getCredentialsForProfile P profileId (resolvePlatform opts c) of
             None \<Rightarrow>
               (Inl (mkError (resolvePlatform opts c @ '' is not connected for this profile'')), s)
           | Some credentials \<Rightarrow>
               if \<not> connected credentials
               then (Inl (mkError (resolvePlatform opts c @
                                   '' is not connected for this profile'')), s)
               else if resolvePlatform opts c = ''instagram''
               then single (postToInstagram E
                              (userWithCredentials (resolvePlatform opts c) credentials) c opts s)
               else if resolvePlatform opts c = ''tiktok''
               then single (postToTikTok E
                              (userWithCredentials (resolvePlatform opts c) credentials) c opts s)
               else if resolvePlatform opts c = ''both''
               then postToBothWithProfile P E profileId c opts s
               else (Inl (mkError (''Unsupported platform: '' @ resolvePlatform opts c)), s)))"
| "postToBothWithProfile P E profileId c opts s =
     (case postWithProfile P E profileId c (opts\<lparr>opt_platform := Some ''instagram''\<rparr>) s of
        (r1, s1) \<Rightarrow>
          (case tryPlatform ''instagram'' r1 [] of
             (ig, errs1) \<Rightarrow>
               (case postWithProfile P E profileId c (opts\<lparr>opt_platform := Some ''tiktok''\<rparr>) s1 of
                  (r2, s2) \<Rightarrow>
                    (case tryPlatform ''tiktok'' r2 errs1 of
                       (tt, errs2) \<Rightarrow> (Inr (Both ig tt errs2), s2)))))"
  by pat_completeness auto
termination
  by (relation "measure (\<lambda>x. case x of
                   Inl (P, E, profileId, c, opts, s) \<Rightarrow>
                     (if resolvePlatform opts c = ''both'' then 2 else 0)
                 | Inr (P, E, profileId, c, opts, s) \<Rightarrow> 1)")
     (auto simp: resolvePlatform_def orElse_def tpl_def)

declare postWithProfile.simps [simp del] postToBothWithProfile.simps [simp del]

subsection \<open>Observations on a run\<close>

text \<open>
  Status checks are recognised in the log: for Instagram the GET with
  \<open>fields=status_code\<close>, for TikTok the POST to the status endpoint. The transport
  invocations of a run are the requests it appended to the log.
\<close>

definition igIsStatus :: "request \<Rightarrow> bool" where
  "igIsStatus req \<longleftrightarrow>
     req_method req = ''GET'' \<and>
     (case req_payload req of
        JObj kvs \<Rightarrow> map_of kvs ''fields'' = Some (JStr ''status_code'')
      | _ \<Rightarrow> False)"

definition ttIsStatus :: "request \<Rightarrow> bool" where
  "ttIsStatus req \<longleftrightarrow> req_method req = ''POST'' \<and> req_url req = ttStatusUrl"

definition igPolls :: "request list \<Rightarrow> nat" where
  "igPolls lg = length (filter igIsStatus lg)"

definition ttPolls :: "request list \<Rightarrow> nat" where
  "ttPolls lg = length (filter ttIsStatus lg)"

text \<open>
  A remote that reports a processing status (neither terminal status) for the first
  \<open>n\<close> status checks after the \<open>p0\<close> already in the log and the terminal success
  status on check \<open>n + 1\<close>; a remote that reports processing on every check; and a
  remote that accepts every request that is not a status check.
\<close>

definition ig_processing_then_finished :: "remote \<Rightarrow> nat \<Rightarrow> nat \<Rightarrow> bool" where
  "ig_processing_then_finished R p0 n \<longleftrightarrow>
     (\<forall>lg req. igIsStatus req \<longrightarrow>
        (igPolls lg < p0 + n \<longrightarrow>
           (\<exists>r. R lg req = Inr r \<and> data_status_code r \<noteq> ''FINISHED'' \<and>
                 data_status_code r \<noteq> ''ERROR'')) \<and>
        (igPolls lg = p0 + n \<longrightarrow>
           (\<exists>r. R lg req = Inr r \<and> data_status_code r = ''FINISHED'')))"

definition ig_processing_forever :: "remote \<Rightarrow> bool" where
  "ig_processing_forever R \<longleftrightarrow>
     (\<forall>lg req. igIsStatus req \<longrightarrow>
        (\<exists>r. R lg req = Inr r \<and> data_status_code r \<noteq> ''FINISHED'' \<and>
              data_status_code r \<noteq> ''ERROR''))"

definition tt_processing_then_complete :: "remote \<Rightarrow> nat \<Rightarrow> nat \<Rightarrow> bool" where
  "tt_processing_then_complete R p0 n \<longleftrightarrow>
     (\<forall>lg req. ttIsStatus req \<longrightarrow>
        (ttPolls lg < p0 + n \<longrightarrow>
           (\<exists>r. R lg req = Inr r \<and> data_status r \<noteq> ''PUBLISH_COMPLETE'' \<and>
                 data_status r \<noteq> ''FAILED'')) \<and>
        (ttPolls lg = p0 + n \<longrightarrow>
           (\<exists>r. R lg req = Inr r \<and> data_status r = ''PUBLISH_COMPLETE'')))"

definition tt_processing_forever :: "remote \<Rightarrow> bool" where
  "tt_processing_forever R \<longleftrightarrow>
     (\<forall>lg req. ttIsStatus req \<longrightarrow>
        (\<exists>r. R lg req = Inr r \<and> data_status r \<noteq> ''PUBLISH_COMPLETE'' \<and>
              data_status r \<noteq> ''FAILED''))"

definition accepts_other :: "remote \<Rightarrow> (request \<Rightarrow> bool) \<Rightarrow> bool" where
  "accepts_other R isStatus \<longleftrightarrow> (\<forall>lg req. \<not> isStatus req \<longrightarrow> (\<exists>r. R lg req = Inr r))"

text \<open>
  The TikTok publish reaches the remote: the account is connected and has a token,
  the content is a video, and the video file can be read.
\<close>

definition tiktok_ready :: "env \<Rightarrow> user \<Rightarrow> content \<Rightarrow> bool" where
  "tiktok_ready E u c \<longleftrightarrow>
     (case tiktok (socialAccounts u) of
        None \<Rightarrow> False
      | Some acc \<Rightarrow> connected acc \<and> truthy (accessToken acc)) \<and>
     mediaType c = ''video'' \<and>
     (case readFileSync E (mediaUrl c) of Inl e \<Rightarrow> False | Inr buf \<Rightarrow> True)"

text \<open>
  \<open>run_any Q R lg reqs\<close>: some request of the run \<open>reqs\<close>, sent after the log \<open>lg\<close>, got
  an answer from \<open>R\<close> that satisfies \<open>Q\<close>.
\<close>

fun run_any ::
  "(request \<Rightarrow> js_error + response \<Rightarrow> bool) \<Rightarrow> remote \<Rightarrow> request list \<Rightarrow> request list \<Rightarrow> bool"
where
  "run_any Q R lg [] = False"
| "run_any Q R lg (q # qs) = (Q q (R lg q) \<or> run_any Q R (lg @ [q]) qs)"

definition wasRejected :: "request \<Rightarrow> js_error + response \<Rightarrow> bool" where
  "wasRejected q a \<longleftrightarrow> (case a of Inl e \<Rightarrow> True | Inr r \<Rightarrow> False)"

definition igStatusIs :: "string \<Rightarrow> request \<Rightarrow> js_error + response \<Rightarrow> bool" where
  "igStatusIs st q a \<longleftrightarrow>
     igIsStatus q \<and> (case a of Inl e \<Rightarrow> False | Inr r \<Rightarrow> data_status_code r = st)"

definition ttStatusIs :: "string \<Rightarrow> request \<Rightarrow> js_error + response \<Rightarrow> bool" where
  "ttStatusIs st q a \<longleftrightarrow>
     ttIsStatus q \<and> (case a of Inl e \<Rightarrow> False | Inr r \<Rightarrow> data_status r = st)"

text \<open>The requests a run from \<open>s\<close> to \<open>s'\<close> sent.\<close>

definition sent :: "tstate \<Rightarrow> tstate \<Rightarrow> request list" where
  "sent s s' = drop (length (log s)) (log s')"

text \<open>
  The expected failures of a single-platform publish, read off the arguments and the
  run: credentials absent, not connected, without token or (Instagram) expired; a
  media kind the platform does not take; a request the remote rejected; a status
  check answered with the failure status; no status check answered with the success
  status (the poll budget ran out).
\<close>

definition ig_expected_failure ::
  "env \<Rightarrow> user \<Rightarrow> content \<Rightarrow> tstate \<Rightarrow> tstate \<Rightarrow> bool" where
  "ig_expected_failure E u c s s' \<longleftrightarrow>
     (case instagram (socialAccounts u) of
        None \<Rightarrow> True
      | Some acc \<Rightarrow>
          \<not> connected acc \<or> \<not> truthy (accessToken acc) \<or> isBefore (expiresAt acc) (clock s)) \<or>
     (mediaType c \<noteq> ''image'' \<and> mediaType c \<noteq> ''video'') \<or>
     run_any wasRejected (remote E) (log s) (sent s s') \<or>
     run_any (igStatusIs ''ERROR'') (remote E) (log s) (sent s s') \<or>
     (mediaType c = ''video'' \<and>
      \<not> run_any (igStatusIs ''FINISHED'') (remote E) (log s) (sent s s'))"

definition tt_expected_failure ::
  "env \<Rightarrow> user \<Rightarrow> content \<Rightarrow> tstate \<Rightarrow> tstate \<Rightarrow> bool" where
  "tt_expected_failure E u c s s' \<longleftrightarrow>
     (case tiktok (socialAccounts u) of
        None \<Rightarrow> True
      | Some acc \<Rightarrow> \<not> connected acc \<or> \<not> truthy (accessToken acc)) \<or>
     mediaType c \<noteq> ''video'' \<or>
     run_any wasRejected (remote E) (log s) (sent s s') \<or>
     run_any (ttStatusIs ''FAILED'') (remote E) (log s) (sent s s') \<or>
     \<not> run_any (ttStatusIs ''PUBLISH_COMPLETE'') (remote E) (log s) (sent s s')"

subsection \<open>Example remotes, accounts and content\<close>

definition okResponse :: response where
  "okResponse =
     \<lparr>data_id = ''17900000000000001'', data_status_code = ''FINISHED'',
      data_permalink = ''https://www.instagram.com/p/abc/'',
      data_publish_id = ''v_pub_1'', data_upload_url = ''https://upload.example.org/v_pub_1'',
      data_status = ''PUBLISH_COMPLETE''\<rparr>"

definition acceptAll :: remote where
  "acceptAll lg req = Inr okResponse"

definition rejectAll :: remote where
  "rejectAll lg req =
     Inl \<lparr>message = ''Request failed with status code 401'',
          response_message = Some ''The access token is invalid''\<rparr>"

text \<open>Processing for the first \<open>n\<close> status checks of either platform, then success.\<close>

definition processingFor :: "nat \<Rightarrow> remote" where
  "processingFor n lg req =
     (if igIsStatus req
      then Inr (okResponse\<lparr>data_status_code :=
                  (if igPolls lg < n then ''IN_PROGRESS'' else ''FINISHED'')\<rparr>)
      else if ttIsStatus req
      then Inr (okResponse\<lparr>data_status :=
                  (if ttPolls lg < n then ''PROCESSING_UPLOAD'' else ''PUBLISH_COMPLETE'')\<rparr>)
      else Inr okResponse)"

definition processingForever :: remote where
  "processingForever lg req =
     Inr (okResponse\<lparr>data_status_code := ''IN_PROGRESS'', data_status := ''PROCESSING_UPLOAD''\<rparr>)"

definition envWith :: "remote \<Rightarrow> env" where
  "envWith R = \<lparr>remote = R, FRONTEND_URL = None, readFileSync = (\<lambda>path. Inr ''video-bytes'')\<rparr>"

definition s0 :: tstate where
  "s0 = \<lparr>log = [], clock = 1700000000000\<rparr>"

definition liveAccount :: social_account where
  "liveAccount =
     \<lparr>connected = True, accessToken = Some ''token-1'', refreshToken = None,
      acc_userId = Some ''1789'', username = Some ''studio'',
      expiresAt = Some 1800000000000\<rparr>"

definition expiredAccount :: social_account where
  "expiredAccount = liveAccount\<lparr>expiresAt := Some 1600000000000\<rparr>"

definition disconnectedAccount :: social_account where
  "disconnectedAccount = liveAccount\<lparr>connected := False\<rparr>"

definition userOf :: "social_account \<Rightarrow> social_account \<Rightarrow> user" where
  "userOf ig tt = \<lparr>socialAccounts = \<lparr>instagram = Some ig, tiktok = Some tt\<rparr>\<rparr>"

definition videoContent :: content where
  "videoContent =
     \<lparr>mediaType = ''video'', mediaUrl = ''uploads/clip.mp4'', caption = Some ''launch'',
      title = None, fileSize = Some 11, content_platform = None\<rparr>"

definition imageContent :: content where
  "imageContent = videoContent\<lparr>mediaType := ''image'', mediaUrl := ''uploads/photo.jpg''\<rparr>"

definition noOptions :: options where
  "noOptions =
     \<lparr>opt_caption = None, opt_platform = None, privacyLevel = None, disableDuet = None,
      disableComment = None, disableStitch = None\<rparr>"

text \<open>A profile store with the one profile \<open>p1\<close>, connected to both platforms.\<close>

definition oneProfile :: "unit profile_store" where
  "oneProfile =
     \<lparr>findById = (\<lambda>pid. if pid = ''p1'' then Some () else None),
      getEffectiveConnection =
        (\<lambda>profile p. if p = ''instagram'' \<or> p = ''tiktok'' then Some liveAccount else None)\<rparr>"

text \<open>A profile whose Instagram connection is off and whose TikTok connection is live.\<close>

definition tiktokOnlyProfile :: "unit profile_store" where
  "tiktokOnlyProfile =
     \<lparr>findById = (\<lambda>pid. if pid = ''p2'' then Some () else None),
      getEffectiveConnection =
        (\<lambda>profile p. if p = ''tiktok'' then Some liveAccount
                       else if p = ''instagram'' then Some disconnectedAccount else None)\<rparr>"

text \<open>The results of the example remote \<open>acceptAll\<close> for a publish started at \<open>s0\<close>.\<close>

definition igResult0 :: post_result where
  "igResult0 =
     \<lparr>res_success = True, res_platform = ''instagram'', res_postId = ''17900000000000001'',
      res_postUrl = ''https://www.instagram.com/p/abc/'', res_timestamp = 1700000000000\<rparr>"

definition ttResult0 :: post_result where
  "ttResult0 =
     \<lparr>res_success = True, res_platform = ''tiktok'', res_postId = ''v_pub_1'',
      res_postUrl = ''https://www.tiktok.com/@studio/video/v_pub_1'',
      res_timestamp = 1700000005000\<rparr>"

section \<open>Properties of the Collection model\<close>

subsection \<open>Array lookups\<close>

lemma findIndex_Some_lt: "findIndex P xs = Some i \<Longrightarrow> i < length xs"
  by (induction xs arbitrary: i) (auto split: if_splits)


lemma findIndex_None_iff: "findIndex P xs = None \<longleftrightarrow> (\<forall>x \<in> set xs. \<not> P x)"
  by (induction xs) auto


lemma items_save [simp]: "items (save now c) = items c"
  by (simp add: save_def)

lemma length_renumber [simp]: "length (renumber i its) = length its"
  by (induction its arbitrary: i) auto


lemma map_order_renumber: "map order (renumber i its) = map int [i..<i + length its]"
proof (induction its arbitrary: i)
  case Nil
  then show ?case by simp
next
  case (Cons it its)
  have "[i..<i + length (it # its)] = i # [Suc i..<Suc i + length its]"
    by (subst upt_rec) simp
  with Cons show ?case by simp
qed


subsection \<open>Statistics\<close>

lemma stats_consistent_save: "stats_consistent (save now c)"
  by (simp add: stats_consistent_def save_def)

text \<open>
  Claim C7. After every mutating queue operation (\<open>addContent\<close>, \<open>removeContent\<close>,
  \<open>reorderContent\<close>, \<open>markAsPosted\<close>, or any save), \<open>stats.postedItems\<close> equals the
  number of entries whose \<open>posted\<close> flag is true and \<open>stats.totalItems\<close> equals the
  number of entries. \<open>reorderContent\<close> mutates and saves exactly when it finds the
  content id; otherwise it returns at once and the document is the one it was given.
\<close>

theorem stats_recomputed:
  "stats_consistent (save now c) \<and>
   stats_consistent (addContent cid pos now c) \<and>
   stats_consistent (removeContent cid now c) \<and>
   stats_consistent (markAsPosted cid pd now c) \<and>
   (findIndex (\<lambda>it. contentId it = cid) (items c) \<noteq> None \<longrightarrow>
      stats_consistent (reorderContent cid pos now c)) \<and>
   (findIndex (\<lambda>it. contentId it = cid) (items c) = None \<longrightarrow>
      reorderContent cid pos now c = c)"
  by (auto simp: addContent_def removeContent_def markAsPosted_def reorderContent_def
      Let_def stats_consistent_save split: option.splits)

theorem stats_recomputed_witness:
  "findIndex (\<lambda>it. contentId it = ''a'') (items twoItems) \<noteq> None \<and>
   stats_consistent (reorderContent ''a'' \<lparr>row = 1, col = 2\<rparr> 5 twoItems) \<and>
   findIndex (\<lambda>it. contentId it = ''z'') (items twoItems) = None \<and>
   reorderContent ''z'' \<lparr>row = 1, col = 2\<rparr> 5 twoItems = twoItems"
proof -
  have a: "findIndex (\<lambda>it. contentId it = ''a'') (items twoItems) \<noteq> None"
    by (simp add: twoItems_def emptyCollection_def addContent_def save_def)
  have z: "findIndex (\<lambda>it. contentId it = ''z'') (items twoItems) = None"
    by (simp add: twoItems_def emptyCollection_def addContent_def save_def)
  show ?thesis
    using a z stats_recomputed [of 5 twoItems "''a''" "\<lparr>row = 1, col = 2\<rparr>" pd1]
      stats_recomputed [of 5 twoItems "''z''" "\<lparr>row = 1, col = 2\<rparr>" pd1]
    by simp
qed

subsection \<open>Order values\<close>

lemma contiguous_addContent:
  "contiguous_orders c \<Longrightarrow> contiguous_orders (addContent cid pos now c)"
  by (simp add: contiguous_orders_def addContent_def Let_def)

lemma contiguous_removeContent: "contiguous_orders (removeContent cid now c)"
  by (simp add: contiguous_orders_def removeContent_def map_order_renumber)

lemma map_order_update_same:
  "i < length its \<Longrightarrow> order x = order (its ! i) \<Longrightarrow> map order (its[i := x]) = map order its"
  by (simp add: map_update list_update_same_conv)

lemma contiguous_reorderContent:
  "contiguous_orders c \<Longrightarrow> contiguous_orders (reorderContent cid pos now c)"
  by (auto simp: contiguous_orders_def reorderContent_def map_order_update_same
      dest: findIndex_Some_lt split: option.splits)

lemma contiguous_markAsPosted:
  "contiguous_orders c \<Longrightarrow> contiguous_orders (markAsPosted cid pd now c)"
  by (auto simp: contiguous_orders_def markAsPosted_def map_order_update_same
      dest: findIndex_Some_lt split: option.splits)

lemma contiguous_apply_op:
  "contiguous_orders c \<Longrightarrow> contiguous_orders (apply_op now op c)"
  by (cases op)
     (simp_all add: contiguous_addContent contiguous_removeContent
        contiguous_reorderContent contiguous_markAsPosted)

lemma contiguous_run_ops:
  "contiguous_orders c \<Longrightarrow> contiguous_orders (run_ops ops c)"
  by (induction ops arbitrary: c) (auto simp: contiguous_apply_op)

text \<open>
  Claim C8. After any sequence of \<open>addContent\<close> and \<open>removeContent\<close> operations
  starting from an empty collection, the \<open>order\<close> values of the entries form a
  contiguous permutation of \<open>0..n-1\<close>: the entry at index \<open>i\<close> has order \<open>i\<close>. The
  theorem allows \<open>reorderContent\<close> and \<open>markAsPosted\<close> in the sequence as well, since
  neither writes \<open>order\<close>. In particular \<open>removeContent\<close>, on any collection, leaves the
  remaining entries numbered contiguously from 0.
\<close>

theorem orders_contiguous:
  "(items c0 = [] \<longrightarrow>
      (let its = items (run_ops ops c0)
       in map order its = map int [0..<length its] \<and>
          distinct (map order its) \<and>
          set (map order its) = int ` {0..<length its})) \<and>
   map order (items (removeContent cid now c)) =
     map int [0..<length (items (removeContent cid now c))]"
proof (intro conjI impI)
  assume "items c0 = []"
  then have "contiguous_orders c0"
    by (simp add: contiguous_orders_def)
  then have "contiguous_orders (run_ops ops c0)"
    by (rule contiguous_run_ops)
  then have eq: "map order (items (run_ops ops c0)) =
                   map int [0..<length (items (run_ops ops c0))]"
    by (simp add: contiguous_orders_def)
  have "distinct (map int [0..<length (items (run_ops ops c0))])"
    by (simp add: distinct_map)
  moreover have "set (map int [0..<length (items (run_ops ops c0))]) =
                   int ` {0..<length (items (run_ops ops c0))}"
    by simp
  ultimately show "let its = items (run_ops ops c0)
       in map order its = map int [0..<length its] \<and>
          distinct (map order its) \<and>
          set (map order its) = int ` {0..<length its}"
    unfolding Let_def using eq by metis
next
  show "map order (items (removeContent cid now c)) =
           map int [0..<length (items (removeContent cid now c))]"
    using contiguous_removeContent [of cid now c] by (simp add: contiguous_orders_def)
qed

theorem orders_contiguous_witness:
  "items emptyCollection = [] \<and>
   map order (items (run_ops [(1, AddContent ''a'' pos0), (2, AddContent ''b'' pos0),
                              (3, AddContent ''c'' pos0), (4, RemoveContent ''a'')]
                       emptyCollection)) = [0, 1]"
proof -
  have e: "items emptyCollection = []"
    by (simp add: emptyCollection_def)
  have l: "length (items (run_ops [(1, AddContent ''a'' pos0), (2, AddContent ''b'' pos0),
                              (3, AddContent ''c'' pos0), (4, RemoveContent ''a'')]
                       emptyCollection)) = 2"
    by (simp add: emptyCollection_def addContent_def removeContent_def save_def)
  have u: "[0..<2] = [0, Suc 0]"
    by (simp add: upt_rec)
  show ?thesis
    using e l u
      orders_contiguous [of emptyCollection
        "[(1, AddContent ''a'' pos0), (2, AddContent ''b'' pos0),
          (3, AddContent ''c'' pos0), (4, RemoveContent ''a'')]" "''x''" 0 emptyCollection]
    by (simp add: Let_def)
qed

subsection \<open>The posted flag\<close>







subsection \<open>Due time\<close>






subsection \<open>The next item to post\<close>

lemma find_None_iff_all: "find P xs = None \<longleftrightarrow> (\<forall>x\<in>set xs. \<not> P x)"
  by (induction xs) auto

lemma getNextItemToPost_None:
  "getNextItemToPost c = None \<longleftrightarrow> (\<forall>it\<in>set (items c). posted it)"
  by (simp add: getNextItemToPost_def find_None_iff_all)

lemma find_Some_index:
  "find P xs = Some x \<Longrightarrow> \<exists>i<length xs. x = xs ! i \<and> P x \<and> (\<forall>j<i. \<not> P (xs ! j))"
  by (auto simp: find_Some_iff)

text \<open>
  Where the \<open>order\<close> of every entry is its array index, as \<open>addContent\<close> and
  \<open>removeContent\<close> leave it, the first unposted entry of the array is the unposted
  entry of smallest \<open>order\<close>.
\<close>

lemma getNextItemToPost_min_order:
  assumes "contiguous_orders c" and "getNextItemToPost c = Some it"
  shows "it \<in> set (items c) \<and> \<not> posted it \<and>
         (\<forall>it'\<in>set (items c). \<not> posted it' \<longrightarrow> order it \<le> order it')"
proof -
  from assms(2) obtain i where i: "i < length (items c)" "it = items c ! i" "\<not> posted it"
    and first: "\<forall>j<i. posted (items c ! j)"
    unfolding getNextItemToPost_def by (auto dest!: find_Some_index)
  have ord: "order (items c ! k) = int k" if k: "k < length (items c)" for k
  proof -
    have "order (items c ! k) = map order (items c) ! k"
      using k by simp
    also have "\<dots> = map int [0..<length (items c)] ! k"
      using assms(1) by (simp add: contiguous_orders_def)
    also have "\<dots> = int k"
      using k by simp
    finally show ?thesis .
  qed
  have "\<forall>it'\<in>set (items c). \<not> posted it' \<longrightarrow> order it \<le> order it'"
  proof (intro ballI impI)
    fix it'
    assume "it' \<in> set (items c)" and np: "\<not> posted it'"
    then obtain k where k: "k < length (items c)" "it' = items c ! k"
      by (auto simp: in_set_conv_nth)
    have "\<not> k < i"
      using first np k by auto
    then show "order it \<le> order it'"
      using ord i k by simp
  qed
  then show ?thesis
    using i by auto
qed

text \<open>
  Claim C6, on the queue \<open>reorderedQueue\<close>: items \<open>a\<close> and \<open>b\<close> added in that order and
  then given the orders 1 and 0 by the reorder endpoint of the controller. Both are
  unposted; \<open>getNextItemToPost\<close> returns \<open>a\<close>, whose \<open>order\<close> is 1, although the unposted
  entry \<open>b\<close> at index 1 has the smaller \<open>order\<close> 0.
\<close>

theorem next_item_ignores_order:
  "getNextItemToPost reorderedQueue =
     Some \<lparr>contentId = ''a'', position = pos0, order = 1, posted = False,
           postedAt = None, postId = None, postUrl = None\<rparr> \<and>
   items reorderedQueue ! 1 =
     \<lparr>contentId = ''b'', position = pos0, order = 0, posted = False,
      postedAt = None, postId = None, postUrl = None\<rparr>"
  by (simp add: getNextItemToPost_def reorderedQueue_def twoItems_def
      controllerReorderContent_def applyUpdate_def emptyCollection_def addContent_def save_def)

section \<open>Properties of the posting service\<close>

subsection \<open>Media URLs\<close>

lemma startsWith_append:
  "startsWith u p \<Longrightarrow> startsWith (u @ v) p"
  by (metis append_eq_conv_conj append.assoc startsWith_def)

lemma default_base_is_http: "startsWith ''http://localhost:3000'' ''http://''"
  by (simp add: startsWith_def)

lemma getPublicMediaUrl_http:
  assumes "frontend_is_http frontendUrl"
  shows "startsWith (getPublicMediaUrl frontendUrl p) ''http://'' \<or>
         startsWith (getPublicMediaUrl frontendUrl p) ''https://''"
proof (cases "startsWith p ''http://'' \<or> startsWith p ''https://''")
  case True
  then show ?thesis by (simp add: getPublicMediaUrl_def)
next
  case False
  define baseUrl where "baseUrl = (case frontendUrl of
                             None \<Rightarrow> ''http://localhost:3000''
                           | Some u \<Rightarrow> if u = [] then ''http://localhost:3000'' else u)"
  have base: "startsWith baseUrl ''http://'' \<or> startsWith baseUrl ''https://''"
    using assms default_base_is_http
    by (auto simp: baseUrl_def frontend_is_http_def split: option.splits)
  have "getPublicMediaUrl frontendUrl p = baseUrl @ (''/uploads/'' @ basename p)"
    using False by (simp add: getPublicMediaUrl_def baseUrl_def Let_def)
  then show ?thesis
    using base startsWith_append by metis
qed

text \<open>
  Claim C10, as stated, with \<open>FRONTEND_URL = localhost:3000\<close> (no scheme): the result
  for \<open>photo.jpg\<close> begins with neither \<open>http://\<close> nor \<open>https://\<close>, and on the path \<open>/\<close>,
  whose basename is empty, applying the function twice differs from applying it once.
\<close>

theorem getPublicMediaUrl_counterexample:
  "getPublicMediaUrl (Some ''localhost:3000'') ''photo.jpg'' = ''localhost:3000/uploads/photo.jpg'' \<and>
   getPublicMediaUrl (Some ''localhost:3000'') ''/'' = ''localhost:3000/uploads/'' \<and>
   getPublicMediaUrl (Some ''localhost:3000'') (getPublicMediaUrl (Some ''localhost:3000'') ''/'') =
     ''localhost:3000/uploads/uploads''"
  by (simp add: getPublicMediaUrl_def startsWith_def basename_def)

text \<open>
  Claim C10, amended. For every media path string \<open>p\<close>, when \<open>FRONTEND_URL\<close> is unset,
  empty, or begins with \<open>http://\<close> or \<open>https://\<close>, \<open>getPublicMediaUrl\<close> is idempotent,
  because its result then begins with \<open>http://\<close> or \<open>https://\<close> and any input already
  beginning with \<open>http://\<close> or \<open>https://\<close> is returned unchanged.
\<close>

theorem getPublicMediaUrl_idempotent:
  assumes "frontend_is_http frontendUrl"
  shows "getPublicMediaUrl frontendUrl (getPublicMediaUrl frontendUrl p) =
           getPublicMediaUrl frontendUrl p \<and>
         (startsWith (getPublicMediaUrl frontendUrl p) ''http://'' \<or>
          startsWith (getPublicMediaUrl frontendUrl p) ''https://'') \<and>
         (startsWith q ''http://'' \<or> startsWith q ''https://'' \<longrightarrow>
            getPublicMediaUrl frontendUrl q = q)"
proof -
  have h: "startsWith (getPublicMediaUrl frontendUrl p) ''http://'' \<or>
           startsWith (getPublicMediaUrl frontendUrl p) ''https://''"
    using assms by (rule getPublicMediaUrl_http)
  have u: "getPublicMediaUrl frontendUrl r = r"
    if "startsWith r ''http://'' \<or> startsWith r ''https://''" for r
    using that by (simp add: getPublicMediaUrl_def)
  from h u show ?thesis by blast
qed

theorem getPublicMediaUrl_idempotent_witness:
  "frontend_is_http None \<and> frontend_is_http (Some ''https://app.example.org'') \<and>
   getPublicMediaUrl None ''uploads/photo.jpg'' = ''http://localhost:3000/uploads/photo.jpg'' \<and>
   getPublicMediaUrl None (getPublicMediaUrl None ''uploads/photo.jpg'') =
     ''http://localhost:3000/uploads/photo.jpg'' \<and>
   getPublicMediaUrl (Some ''https://app.example.org'')
     (getPublicMediaUrl (Some ''https://app.example.org'') ''/'') =
     ''https://app.example.org/uploads/'' \<and>
   startsWith ''https://cdn.example.org/a.png'' ''https://'' \<and>
   getPublicMediaUrl None ''https://cdn.example.org/a.png'' = ''https://cdn.example.org/a.png''"
proof -
  have a: "frontend_is_http None"
    by (simp add: frontend_is_http_def)
  have b: "frontend_is_http (Some ''https://app.example.org'')"
    by (simp add: frontend_is_http_def startsWith_def)
  have c: "getPublicMediaUrl None ''uploads/photo.jpg'' = ''http://localhost:3000/uploads/photo.jpg''"
    by (simp add: getPublicMediaUrl_def startsWith_def basename_def)
  have d: "getPublicMediaUrl (Some ''https://app.example.org'') ''/'' =
             ''https://app.example.org/uploads/''"
    by (simp add: getPublicMediaUrl_def startsWith_def basename_def)
  have e: "startsWith ''https://cdn.example.org/a.png'' ''https://''"
    by (simp add: startsWith_def)
  show ?thesis
    using a b c d e
      getPublicMediaUrl_idempotent [OF a, of "''uploads/photo.jpg''" "''https://cdn.example.org/a.png''"]
      getPublicMediaUrl_idempotent [OF b, of "''/''" "''https://cdn.example.org/a.png''"]
    by simp
qed

subsection \<open>Polling\<close>

lemma log_sleep [simp]: "log (sleep ms s) = log s"
  by (simp add: sleep_def)

lemma clock_sleep [simp]: "clock (sleep ms s) = clock s + ms"
  by (simp add: sleep_def)

lemma axios_result:
  "axios R req s = (a, s') \<longleftrightarrow> a = R (log s) req \<and> s' = s\<lparr>log := log s @ [req]\<rparr>"
  by (auto simp: axios_def)

lemma igPolls_simps [simp]:
  "igPolls [] = 0"
  "igPolls (q # lg) = (if igIsStatus q then 1 else 0) + igPolls lg"
  "igPolls (lg @ lg') = igPolls lg + igPolls lg'"
  by (simp_all add: igPolls_def)

lemma ttPolls_simps [simp]:
  "ttPolls [] = 0"
  "ttPolls (q # lg) = (if ttIsStatus q then 1 else 0) + ttPolls lg"
  "ttPolls (lg @ lg') = ttPolls lg + ttPolls lg'"
  by (simp_all add: ttPolls_def)

lemma igIsStatus_request [simp]:
  "igIsStatus (igStatusRequest cid tok)"
  "\<not> igIsStatus (igPublishRequest uid cid tok)"
  "\<not> igIsStatus (igPermalinkRequest pid tok)"
  by (simp_all add: igIsStatus_def igStatusRequest_def igPublishRequest_def igPermalinkRequest_def)

lemma ttIsStatus_request [simp]:
  "ttIsStatus (ttStatusRequest pid tok)"
  "\<not> ttIsStatus (ttInitRequest tok c opts)"
  "\<not> ttIsStatus (ttUploadRequest url buf)"
  by (simp_all add: ttIsStatus_def ttStatusRequest_def ttInitRequest_def ttUploadRequest_def
      ttStatusUrl_def)

lemma igPoll_ready: "igPoll E cid tok True a s = (Inr True, s)"
  by (subst igPoll.simps) simp

lemma igPoll_exhausted: "igPoll E cid tok b igMaxAttempts s = (Inr b, s)"
  by (subst igPoll.simps) simp

lemma igPoll_finishes:
  assumes pf: "ig_processing_then_finished (remote E) p0 N"
  shows "igPolls (log s) = p0 + a \<Longrightarrow> a \<le> N \<Longrightarrow> N < igMaxAttempts \<Longrightarrow>
         \<exists>s'. igPoll E cid tok False a s = (Inr True, s') \<and>
              igPolls (log s') = p0 + N + 1 \<and>
              clock s' = clock s + 6000 * (int N + 1 - int a)"
proof (induction "N - a" arbitrary: a s)
  case 0
  then have aN: "a = N" by simp
  from pf 0 aN obtain r where r: "remote E (log s) (igStatusRequest cid tok) = Inr r"
    "data_status_code r = ''FINISHED''"
    unfolding ig_processing_then_finished_def by (metis igIsStatus_request(1))
  show ?case
    using 0 aN r
    by (subst igPoll.simps) (simp add: axios_def igPoll_ready)
next
  case (Suc d)
  then have lt: "a < N" by simp
  from pf Suc.prems lt obtain r where r: "remote E (log s) (igStatusRequest cid tok) = Inr r"
    "data_status_code r \<noteq> ''FINISHED''" "data_status_code r \<noteq> ''ERROR''"
    unfolding ig_processing_then_finished_def
    by (metis igIsStatus_request(1) add_less_cancel_left)
  let ?s1 = "(sleep 6000 s)\<lparr>log := log s @ [igStatusRequest cid tok]\<rparr>"
  have step: "igPoll E cid tok False a s = igPoll E cid tok False (a + 1) ?s1"
    using Suc.prems lt r by (subst igPoll.simps) (simp add: axios_def)
  have "d = N - (a + 1)" using Suc.hyps(2) by simp
  from Suc.hyps(1) [OF this, of ?s1] Suc.prems lt
  obtain s' where "igPoll E cid tok False (a + 1) ?s1 = (Inr True, s')"
    "igPolls (log s') = p0 + N + 1" "clock s' = clock ?s1 + 6000 * (int N + 1 - int (a + 1))"
    by auto
  then show ?case using step by auto
qed

lemma igPoll_times_out:
  assumes pf: "ig_processing_forever (remote E)"
  shows "a \<le> igMaxAttempts \<Longrightarrow>
         \<exists>s'. igPoll E cid tok False a s = (Inr False, s') \<and>
              igPolls (log s') = igPolls (log s) + (igMaxAttempts - a) \<and>
              clock s' = clock s + 6000 * (int igMaxAttempts - int a)"
proof (induction "igMaxAttempts - a" arbitrary: a s)
  case 0
  then have "a = igMaxAttempts" by simp
  then show ?case by (simp add: igPoll_exhausted)
next
  case (Suc d)
  then have lt: "a < igMaxAttempts" by simp
  from pf obtain r where r: "remote E (log s) (igStatusRequest cid tok) = Inr r"
    "data_status_code r \<noteq> ''FINISHED''" "data_status_code r \<noteq> ''ERROR''"
    unfolding ig_processing_forever_def by (metis igIsStatus_request(1))
  let ?s1 = "(sleep 6000 s)\<lparr>log := log s @ [igStatusRequest cid tok]\<rparr>"
  have step: "igPoll E cid tok False a s = igPoll E cid tok False (a + 1) ?s1"
    using lt r by (subst igPoll.simps) (simp add: axios_def)
  have "d = igMaxAttempts - (a + 1)" using Suc.hyps(2) by simp
  from Suc.hyps(1) [OF this, of ?s1] lt
  obtain s' where "igPoll E cid tok False (a + 1) ?s1 = (Inr False, s')"
    "igPolls (log s') = igPolls (log ?s1) + (igMaxAttempts - (a + 1))"
    "clock s' = clock ?s1 + 6000 * (int igMaxAttempts - int (a + 1))"
    by auto
  then show ?case using step lt by auto
qed


lemma ttPoll_done: "ttPoll E pid tok True a s = (Inr True, s)"
  by (subst ttPoll.simps) simp

lemma ttPoll_exhausted: "ttPoll E pid tok b ttMaxAttempts s = (Inr b, s)"
  by (subst ttPoll.simps) simp

lemma ttPoll_finishes:
  assumes pf: "tt_processing_then_complete (remote E) p0 N"
  shows "ttPolls (log s) = p0 + a \<Longrightarrow> a \<le> N \<Longrightarrow> N < ttMaxAttempts \<Longrightarrow>
         \<exists>s'. ttPoll E pid tok False a s = (Inr True, s') \<and>
              ttPolls (log s') = p0 + N + 1 \<and>
              clock s' = clock s + 5000 * (int N + 1 - int a)"
proof (induction "N - a" arbitrary: a s)
  case 0
  then have aN: "a = N" by simp
  from pf 0 aN obtain r where r: "remote E (log s) (ttStatusRequest pid tok) = Inr r"
    "data_status r = ''PUBLISH_COMPLETE''"
    unfolding tt_processing_then_complete_def by (metis ttIsStatus_request(1))
  show ?case
    using 0 aN r
    by (subst ttPoll.simps) (simp add: axios_def ttPoll_done)
next
  case (Suc d)
  then have lt: "a < N" by simp
  from pf Suc.prems lt obtain r where r: "remote E (log s) (ttStatusRequest pid tok) = Inr r"
    "data_status r \<noteq> ''PUBLISH_COMPLETE''" "data_status r \<noteq> ''FAILED''"
    unfolding tt_processing_then_complete_def
    by (metis ttIsStatus_request(1) add_less_cancel_left)
  let ?s1 = "(sleep 5000 s)\<lparr>log := log s @ [ttStatusRequest pid tok]\<rparr>"
  have step: "ttPoll E pid tok False a s = ttPoll E pid tok False (a + 1) ?s1"
    using Suc.prems lt r by (subst ttPoll.simps) (simp add: axios_def)
  have "d = N - (a + 1)" using Suc.hyps(2) by simp
  from Suc.hyps(1) [OF this, of ?s1] Suc.prems lt
  obtain s' where "ttPoll E pid tok False (a + 1) ?s1 = (Inr True, s')"
    "ttPolls (log s') = p0 + N + 1" "clock s' = clock ?s1 + 5000 * (int N + 1 - int (a + 1))"
    by auto
  then show ?case using step by auto
qed

lemma ttPoll_times_out:
  assumes pf: "tt_processing_forever (remote E)"
  shows "a \<le> ttMaxAttempts \<Longrightarrow>
         \<exists>s'. ttPoll E pid tok False a s = (Inr False, s') \<and>
              ttPolls (log s') = ttPolls (log s) + (ttMaxAttempts - a) \<and>
              clock s' = clock s + 5000 * (int ttMaxAttempts - int a)"
proof (induction "ttMaxAttempts - a" arbitrary: a s)
  case 0
  then have "a = ttMaxAttempts" by simp
  then show ?case by (simp add: ttPoll_exhausted)
next
  case (Suc d)
  then have lt: "a < ttMaxAttempts" by simp
  from pf obtain r where r: "remote E (log s) (ttStatusRequest pid tok) = Inr r"
    "data_status r \<noteq> ''PUBLISH_COMPLETE''" "data_status r \<noteq> ''FAILED''"
    unfolding tt_processing_forever_def by (metis ttIsStatus_request(1))
  let ?s1 = "(sleep 5000 s)\<lparr>log := log s @ [ttStatusRequest pid tok]\<rparr>"
  have step: "ttPoll E pid tok False a s = ttPoll E pid tok False (a + 1) ?s1"
    using lt r by (subst ttPoll.simps) (simp add: axios_def)
  have "d = ttMaxAttempts - (a + 1)" using Suc.hyps(2) by simp
  from Suc.hyps(1) [OF this, of ?s1] lt
  obtain s' where "ttPoll E pid tok False (a + 1) ?s1 = (Inr False, s')"
    "ttPolls (log s') = ttPolls (log ?s1) + (ttMaxAttempts - (a + 1))"
    "clock s' = clock ?s1 + 5000 * (int ttMaxAttempts - int (a + 1))"
    by auto
  then show ?case using step lt by auto
qed

lemma igPublishAndLink_accepted:
  assumes acc: "accepts_other (remote E) igIsStatus"
  shows "\<exists>r s'. igPublishAndLink E userId tok cid s = (Inr r, s') \<and> res_success r \<and>
               igPolls (log s') = igPolls (log s) \<and> clock s' = clock s"
proof -
  from acc obtain r1 where r1: "remote E (log s) (igPublishRequest userId cid tok) = Inr r1"
    unfolding accepts_other_def by (meson igIsStatus_request(2))
  from acc obtain r2 where
    r2: "remote E (log s @ [igPublishRequest userId cid tok]) (igPermalinkRequest (data_id r1) tok) = Inr r2"
    unfolding accepts_other_def by (meson igIsStatus_request(3))
  show ?thesis
    using r1 r2 by (simp add: igPublishAndLink_def andThen_def axios_def Let_def)
qed

lemma igVideoRequest_not_status [simp]: "\<not> igIsStatus (igVideoRequest E userId tok c opts)"
  by (simp add: igVideoRequest_def igIsStatus_def)

lemma postInstagramVideo_finishes:
  assumes pf: "ig_processing_then_finished (remote E) (igPolls (log s)) N"
    and acc: "accepts_other (remote E) igIsStatus"
    and budget: "N + 1 \<le> igMaxAttempts"
  shows "\<exists>r s'. postInstagramVideo E userId tok c opts s = (Inr r, s') \<and> res_success r \<and>
               igPolls (log s') = igPolls (log s) + N + 1 \<and>
               clock s' = clock s + 6000 * (int N + 1)"
proof -
  let ?q0 = "igVideoRequest E userId tok c opts"
  from acc obtain r0 where r0: "remote E (log s) ?q0 = Inr r0"
    unfolding accepts_other_def by (meson igVideoRequest_not_status)
  let ?s1 = "s\<lparr>log := log s @ [?q0]\<rparr>"
  have p1: "igPolls (log ?s1) = igPolls (log s) + 0" by simp
  from igPoll_finishes [OF pf p1, of "data_id r0" tok] budget
  obtain s2 where s2: "igPoll E (data_id r0) tok False 0 ?s1 = (Inr True, s2)"
    "igPolls (log s2) = igPolls (log s) + N + 1" "clock s2 = clock ?s1 + 6000 * (int N + 1 - int 0)"
    by auto
  from igPublishAndLink_accepted [OF acc, of userId tok "data_id r0" s2]
  obtain r s3 where s3: "igPublishAndLink E userId tok (data_id r0) s2 = (Inr r, s3)"
    "res_success r" "igPolls (log s3) = igPolls (log s2)" "clock s3 = clock s2"
    by auto
  have "postInstagramVideo E userId tok c opts s = (Inr r, s3)"
    using r0 s2(1) s3(1)
    by (simp add: postInstagramVideo_def Let_def andThen_def catchWrap_def axios_def)
  then show ?thesis using s2 s3 by simp
qed

lemma postInstagramVideo_times_out:
  assumes pf: "ig_processing_forever (remote E)"
    and acc: "accepts_other (remote E) igIsStatus"
  shows "\<exists>s'. postInstagramVideo E userId tok c opts s =
               (Inl (mkError ''Instagram video posting failed: Video processing timeout''), s') \<and>
               igPolls (log s') = igPolls (log s) + 20 \<and>
               clock s' = clock s + 120000"
proof -
  let ?q0 = "igVideoRequest E userId tok c opts"
  from acc obtain r0 where r0: "remote E (log s) ?q0 = Inr r0"
    unfolding accepts_other_def by (meson igVideoRequest_not_status)
  let ?s1 = "s\<lparr>log := log s @ [?q0]\<rparr>"
  from igPoll_times_out [OF pf, of 0 "data_id r0" tok ?s1]
  obtain s2 where s2: "igPoll E (data_id r0) tok False 0 ?s1 = (Inr False, s2)"
    "igPolls (log s2) = igPolls (log ?s1) + (igMaxAttempts - 0)"
    "clock s2 = clock ?s1 + 6000 * (int igMaxAttempts - int 0)"
    by auto
  have "postInstagramVideo E userId tok c opts s =
          (Inl (mkError ''Instagram video posting failed: Video processing timeout''), s2)"
    using r0 s2(1)
    by (simp add: postInstagramVideo_def Let_def andThen_def catchWrap_def axios_def
        errText_def mkError_def)
  then show ?thesis using s2 by (simp add: igMaxAttempts_def)
qed


lemma postToTikTok_ready:
  assumes "tiktok (socialAccounts u) = Some acc" and "connected acc"
    and "truthy (accessToken acc)" and "mediaType c = ''video''"
    and "readFileSync E (mediaUrl c) = Inr buf"
  shows "postToTikTok E u c opts s =
     catchWrap ''TikTok posting failed: ''
       (andThen (axios (remote E) (ttInitRequest (tpl (accessToken acc)) c opts) s)
          (\<lambda>initResponse s1.
             andThen (axios (remote E)
                        (ttUploadRequest (data_upload_url initResponse) buf) s1)
               (\<lambda>uploadResponse s3.
                  andThen (ttPoll E (data_publish_id initResponse) (tpl (accessToken acc)) False 0 s3)
                    (\<lambda>publishComplete s4.
                       if \<not> publishComplete
                       then (Inl (mkError ''TikTok publish timeout''), s4)
                       else (Inr \<lparr>res_success = True,
                                  res_platform = ''tiktok'',
                                  res_postId = data_publish_id initResponse,
                                  res_postUrl =
                                    ''https://www.tiktok.com/@'' @
                                    tpl (username acc) @ ''/video/'' @
                                    data_publish_id initResponse,
                                  res_timestamp = clock s4\<rparr>, s4)))))"
  using assms by (simp add: postToTikTok_def Let_def andThen_def)

lemma tiktok_readyE:
  assumes "tiktok_ready E u c"
  obtains acc buf where "tiktok (socialAccounts u) = Some acc" and "connected acc"
    and "truthy (accessToken acc)" and "mediaType c = ''video''"
    and "readFileSync E (mediaUrl c) = Inr buf"
  using assms by (auto simp: tiktok_ready_def split: option.splits sum.splits)

lemma postToTikTok_finishes:
  assumes ready: "tiktok_ready E u c"
    and pf: "tt_processing_then_complete (remote E) (ttPolls (log s)) N"
    and acc: "accepts_other (remote E) ttIsStatus"
    and budget: "N + 1 \<le> ttMaxAttempts"
  shows "\<exists>r s'. postToTikTok E u c opts s = (Inr r, s') \<and> res_success r \<and>
               ttPolls (log s') = ttPolls (log s) + N + 1 \<and>
               clock s' = clock s + 5000 * (int N + 1)"
proof -
  from ready obtain a buf where ab: "tiktok (socialAccounts u) = Some a" "connected a"
    "truthy (accessToken a)" "mediaType c = ''video''" "readFileSync E (mediaUrl c) = Inr buf"
    by (rule tiktok_readyE)
  note un = postToTikTok_ready [OF ab]
  let ?tok = "tpl (accessToken a)"
  let ?q0 = "ttInitRequest ?tok c opts"
  from acc obtain r0 where r0: "remote E (log s) ?q0 = Inr r0"
    unfolding accepts_other_def by (meson ttIsStatus_request(2))
  let ?q1 = "ttUploadRequest (data_upload_url r0) buf"
  from acc obtain r1 where r1: "remote E (log s @ [?q0]) ?q1 = Inr r1"
    unfolding accepts_other_def by (meson ttIsStatus_request(3))
  let ?s2 = "s\<lparr>log := log s @ [?q0, ?q1]\<rparr>"
  have p: "ttPolls (log ?s2) = ttPolls (log s) + 0" by simp
  from ttPoll_finishes [OF pf p, of "data_publish_id r0" ?tok] budget
  obtain s3 where s3: "ttPoll E (data_publish_id r0) ?tok False 0 ?s2 = (Inr True, s3)"
    "ttPolls (log s3) = ttPolls (log s) + N + 1" "clock s3 = clock ?s2 + 5000 * (int N + 1 - int 0)"
    by auto
  have "\<exists>r. postToTikTok E u c opts s = (Inr r, s3) \<and> res_success r"
    using r0 r1 s3(1) by (simp add: un andThen_def catchWrap_def axios_def)
  then show ?thesis using s3 by auto
qed

lemma postToTikTok_times_out:
  assumes ready: "tiktok_ready E u c"
    and pf: "tt_processing_forever (remote E)"
    and acc: "accepts_other (remote E) ttIsStatus"
  shows "\<exists>s'. postToTikTok E u c opts s =
               (Inl (mkError ''TikTok posting failed: TikTok publish timeout''), s') \<and>
               ttPolls (log s') = ttPolls (log s) + 30 \<and>
               clock s' = clock s + 150000"
proof -
  from ready obtain a buf where ab: "tiktok (socialAccounts u) = Some a" "connected a"
    "truthy (accessToken a)" "mediaType c = ''video''" "readFileSync E (mediaUrl c) = Inr buf"
    by (rule tiktok_readyE)
  note un = postToTikTok_ready [OF ab]
  let ?tok = "tpl (accessToken a)"
  let ?q0 = "ttInitRequest ?tok c opts"
  from acc obtain r0 where r0: "remote E (log s) ?q0 = Inr r0"
    unfolding accepts_other_def by (meson ttIsStatus_request(2))
  let ?q1 = "ttUploadRequest (data_upload_url r0) buf"
  from acc obtain r1 where r1: "remote E (log s @ [?q0]) ?q1 = Inr r1"
    unfolding accepts_other_def by (meson ttIsStatus_request(3))
  let ?s2 = "s\<lparr>log := log s @ [?q0, ?q1]\<rparr>"
  from ttPoll_times_out [OF pf, of 0 "data_publish_id r0" ?tok ?s2]
  obtain s3 where s3: "ttPoll E (data_publish_id r0) ?tok False 0 ?s2 = (Inr False, s3)"
    "ttPolls (log s3) = ttPolls (log ?s2) + (ttMaxAttempts - 0)"
    "clock s3 = clock ?s2 + 5000 * (int ttMaxAttempts - int 0)"
    by auto
  have "postToTikTok E u c opts s =
          (Inl (mkError ''TikTok posting failed: TikTok publish timeout''), s3)"
    using r0 r1 s3(1)
    by (simp add: un andThen_def catchWrap_def axios_def errText_def mkError_def)
  then show ?thesis using s3 by (simp add: ttMaxAttempts_def)
qed

text \<open>
  Claim C2. For every \<open>N\<close> with \<open>N + 1\<close> within the poll budget, if the remote
  status endpoint reports a processing status for the first \<open>N\<close> polls and the terminal
  success status on poll \<open>N + 1\<close>, the asynchronous publish performs exactly \<open>N + 1\<close>
  status checks and then succeeds; if the remote reports processing on every poll, the
  publish ends with the timeout error after the bounded number of polls, 20 attempts
  at 6 s for the Instagram video path and 30 attempts at 5 s for the TikTok path. The
  other requests of the publish are accepted by the remote. Both publish functions are
  total, so neither can hang.
\<close>

theorem polling_is_bounded:
  "(ig_processing_then_finished (remote E) (igPolls (log s)) N \<and>
    accepts_other (remote E) igIsStatus \<and> N + 1 \<le> 20 \<longrightarrow>
      (\<exists>r s'. postInstagramVideo E userId tok c opts s = (Inr r, s') \<and> res_success r \<and>
               igPolls (log s') = igPolls (log s) + (N + 1) \<and>
               clock s' = clock s + 6000 * int (N + 1))) \<and>
   (ig_processing_forever (remote E) \<and> accepts_other (remote E) igIsStatus \<longrightarrow>
      (\<exists>s'. postInstagramVideo E userId tok c opts s =
               (Inl (mkError ''Instagram video posting failed: Video processing timeout''), s') \<and>
             igPolls (log s') = igPolls (log s) + 20 \<and>
             clock s' = clock s + 20 * 6000)) \<and>
   (tiktok_ready E u c \<and> tt_processing_then_complete (remote E) (ttPolls (log s)) N \<and>
    accepts_other (remote E) ttIsStatus \<and> N + 1 \<le> 30 \<longrightarrow>
      (\<exists>r s'. postToTikTok E u c opts s = (Inr r, s') \<and> res_success r \<and>
               ttPolls (log s') = ttPolls (log s) + (N + 1) \<and>
               clock s' = clock s + 5000 * int (N + 1))) \<and>
   (tiktok_ready E u c \<and> tt_processing_forever (remote E) \<and>
    accepts_other (remote E) ttIsStatus \<longrightarrow>
      (\<exists>s'. postToTikTok E u c opts s =
               (Inl (mkError ''TikTok posting failed: TikTok publish timeout''), s') \<and>
             ttPolls (log s') = ttPolls (log s) + 30 \<and>
             clock s' = clock s + 30 * 5000))"
proof (intro conjI impI)
  assume "ig_processing_then_finished (remote E) (igPolls (log s)) N \<and>
    accepts_other (remote E) igIsStatus \<and> N + 1 \<le> 20"
  then show "\<exists>r s'. postInstagramVideo E userId tok c opts s = (Inr r, s') \<and> res_success r \<and>
               igPolls (log s') = igPolls (log s) + (N + 1) \<and>
               clock s' = clock s + 6000 * int (N + 1)"
    using postInstagramVideo_finishes [of E s N userId tok c opts]
    by (auto simp: igMaxAttempts_def algebra_simps)
next
  assume "ig_processing_forever (remote E) \<and> accepts_other (remote E) igIsStatus"
  then show "\<exists>s'. postInstagramVideo E userId tok c opts s =
               (Inl (mkError ''Instagram video posting failed: Video processing timeout''), s') \<and>
             igPolls (log s') = igPolls (log s) + 20 \<and>
             clock s' = clock s + 20 * 6000"
    using postInstagramVideo_times_out [of E userId tok c opts s] by simp
next
  assume "tiktok_ready E u c \<and> tt_processing_then_complete (remote E) (ttPolls (log s)) N \<and>
    accepts_other (remote E) ttIsStatus \<and> N + 1 \<le> 30"
  then show "\<exists>r s'. postToTikTok E u c opts s = (Inr r, s') \<and> res_success r \<and>
               ttPolls (log s') = ttPolls (log s) + (N + 1) \<and>
               clock s' = clock s + 5000 * int (N + 1)"
    using postToTikTok_finishes [of E u c s N opts]
    by (auto simp: ttMaxAttempts_def algebra_simps)
next
  assume "tiktok_ready E u c \<and> tt_processing_forever (remote E) \<and>
    accepts_other (remote E) ttIsStatus"
  then show "\<exists>s'. postToTikTok E u c opts s =
               (Inl (mkError ''TikTok posting failed: TikTok publish timeout''), s') \<and>
             ttPolls (log s') = ttPolls (log s) + 30 \<and>
             clock s' = clock s + 30 * 5000"
    using postToTikTok_times_out [of E u c opts s] by simp
qed

lemma processingFor_then_finished:
  "ig_processing_then_finished (processingFor n) 0 n"
  by (simp add: ig_processing_then_finished_def processingFor_def okResponse_def)

lemma status_kinds_disjoint: "ttIsStatus req \<Longrightarrow> \<not> igIsStatus req"
  by (auto simp: igIsStatus_def ttIsStatus_def)

lemma processingFor_then_complete:
  "tt_processing_then_complete (processingFor n) 0 n"
  by (simp add: tt_processing_then_complete_def processingFor_def okResponse_def
      status_kinds_disjoint)

lemma processingFor_accepts: "accepts_other (processingFor n) isStatus"
  by (simp add: accepts_other_def processingFor_def)

lemma processingForever_forever:
  "ig_processing_forever processingForever" "tt_processing_forever processingForever"
  "accepts_other processingForever isStatus"
  by (simp_all add: ig_processing_forever_def tt_processing_forever_def accepts_other_def
      processingForever_def okResponse_def)

theorem polling_is_bounded_witness:
  "ig_processing_then_finished (remote (envWith (processingFor 3))) (igPolls (log s0)) 3 \<and>
   accepts_other (remote (envWith (processingFor 3))) igIsStatus \<and> (3::nat) + 1 \<le> 20 \<and>
   ig_processing_forever (remote (envWith processingForever)) \<and>
   accepts_other (remote (envWith processingForever)) igIsStatus \<and>
   tiktok_ready (envWith (processingFor 3)) (userOf liveAccount liveAccount) videoContent \<and>
   tt_processing_then_complete (remote (envWith (processingFor 3))) (ttPolls (log s0)) 3 \<and>
   accepts_other (remote (envWith (processingFor 3))) ttIsStatus \<and> (3::nat) + 1 \<le> 30 \<and>
   tiktok_ready (envWith processingForever) (userOf liveAccount liveAccount) videoContent \<and>
   tt_processing_forever (remote (envWith processingForever)) \<and>
   accepts_other (remote (envWith processingForever)) ttIsStatus \<and>
   igPolls (log (snd (postInstagramVideo (envWith (processingFor 3)) (Some ''1789'') ''token-1''
                        videoContent noOptions s0))) = 4 \<and>
   fst (postInstagramVideo (envWith processingForever) (Some ''1789'') ''token-1''
          videoContent noOptions s0) =
     Inl (mkError ''Instagram video posting failed: Video processing timeout'') \<and>
   igPolls (log (snd (postInstagramVideo (envWith processingForever) (Some ''1789'') ''token-1''
                        videoContent noOptions s0))) = 20 \<and>
   ttPolls (log (snd (postToTikTok (envWith (processingFor 3)) (userOf liveAccount liveAccount)
                        videoContent noOptions s0))) = 4 \<and>
   fst (postToTikTok (envWith processingForever) (userOf liveAccount liveAccount)
          videoContent noOptions s0) =
     Inl (mkError ''TikTok posting failed: TikTok publish timeout'') \<and>
   clock (snd (postToTikTok (envWith processingForever) (userOf liveAccount liveAccount)
                 videoContent noOptions s0)) = clock s0 + 150000"
proof -
  have l0: "igPolls (log s0) = 0" "ttPolls (log s0) = 0"
    by (simp_all add: s0_def)
  have r: "remote (envWith R) = R" for R
    by (simp add: envWith_def)
  have h1: "ig_processing_then_finished (remote (envWith (processingFor 3))) (igPolls (log s0)) 3"
    by (simp add: l0 r processingFor_then_finished)
  have h2: "accepts_other (remote (envWith (processingFor 3))) isStatus" for isStatus
    by (simp add: r processingFor_accepts)
  have h3: "ig_processing_forever (remote (envWith processingForever))"
    "tt_processing_forever (remote (envWith processingForever))"
    "accepts_other (remote (envWith processingForever)) isStatus" for isStatus
    by (simp_all add: r processingForever_forever)
  have h4: "tiktok_ready (envWith R) (userOf liveAccount liveAccount) videoContent" for R
    by (simp add: tiktok_ready_def envWith_def userOf_def liveAccount_def videoContent_def
        truthy_def)
  have h5: "tt_processing_then_complete (remote (envWith (processingFor 3))) (ttPolls (log s0)) 3"
    by (simp add: l0 r processingFor_then_complete)
  have n: "(3::nat) + 1 \<le> 20" "(3::nat) + 1 \<le> 30"
    by simp_all
  note a = polling_is_bounded [where E = "envWith (processingFor 3)" and s = s0 and N = 3
      and userId = "Some ''1789''" and tok = "''token-1''" and c = videoContent
      and opts = noOptions and u = "userOf liveAccount liveAccount"]
  note b = polling_is_bounded [where E = "envWith processingForever" and s = s0 and N = 3
      and userId = "Some ''1789''" and tok = "''token-1''" and c = videoContent
      and opts = noOptions and u = "userOf liveAccount liveAccount"]
  from a h1 h2 n have a1: "igPolls (log (snd (postInstagramVideo (envWith (processingFor 3))
      (Some ''1789'') ''token-1'' videoContent noOptions s0))) = 4"
    using l0 by auto
  from a h4 h5 h2 n have a2: "ttPolls (log (snd (postToTikTok (envWith (processingFor 3))
      (userOf liveAccount liveAccount) videoContent noOptions s0))) = 4"
    using l0 by auto
  from b h3 have b1: "fst (postInstagramVideo (envWith processingForever) (Some ''1789'') ''token-1''
          videoContent noOptions s0) =
     Inl (mkError ''Instagram video posting failed: Video processing timeout'')"
    "igPolls (log (snd (postInstagramVideo (envWith processingForever) (Some ''1789'') ''token-1''
                        videoContent noOptions s0))) = 20"
    using l0 by auto
  from b h3 h4 have b2: "fst (postToTikTok (envWith processingForever) (userOf liveAccount liveAccount)
          videoContent noOptions s0) =
     Inl (mkError ''TikTok posting failed: TikTok publish timeout'')"
    "clock (snd (postToTikTok (envWith processingForever) (userOf liveAccount liveAccount)
                 videoContent noOptions s0)) = clock s0 + 150000"
    by auto
  show ?thesis
    using h1 h2 h3 h4 h5 n a1 a2 b1 b2 by simp
qed

subsection \<open>Credential checks\<close>

lemma instagram_precondition:
  assumes "instagram (socialAccounts u) = Some acc"
    and "\<not> connected acc \<or> \<not> truthy (accessToken acc) \<or> isBefore (expiresAt acc) (clock s)"
  shows "\<exists>e. postToInstagram E u c opts s = (Inl e, s)"
  using assms by (auto simp: postToInstagram_def)

lemma tiktok_precondition:
  assumes "tiktok (socialAccounts u) = Some acc"
    and "\<not> connected acc \<or> \<not> truthy (accessToken acc)"
  shows "\<exists>e. postToTikTok E u c opts s = (Inl e, s)"
  using assms by (auto simp: postToTikTok_def catchWrap_def)

text \<open>\<open>postToTikTok\<close> never reads \<open>expiresAt\<close>: its outcome is the same for any value.\<close>

lemma tiktok_expiry_unread:
  assumes "tiktok (socialAccounts u) = Some acc"
  shows "postToTikTok E
           (u\<lparr>socialAccounts := (socialAccounts u)\<lparr>tiktok := Some (acc\<lparr>expiresAt := d\<rparr>)\<rparr>\<rparr>)
           c opts s =
         postToTikTok E u c opts s"
  using assms by (simp add: postToTikTok_def Let_def cong: if_cong)

text \<open>
  Claim C1, on the TikTok path with an account that is connected, has a token, and
  whose \<open>expiresAt\<close> lies before the clock of \<open>s0\<close>: \<open>postToTikTok\<close> sends the init
  request. With a remote that rejects it, the error of the publish is the remote's
  rejection and the log holds one request; with a remote that accepts everything the
  publish succeeds after three transport invocations. The Instagram path, and both
  paths for an account that is not connected, fail before any request
  (\<open>instagram_precondition\<close>, \<open>tiktok_precondition\<close>).
\<close>

theorem tiktok_ignores_expiry:
  "tiktok (socialAccounts (userOf liveAccount expiredAccount)) = Some expiredAccount \<and>
   connected expiredAccount \<and>
   isBefore (expiresAt expiredAccount) (clock s0) \<and>
   postToTikTok (envWith rejectAll) (userOf liveAccount expiredAccount) videoContent noOptions s0 =
     (Inl (mkError ''TikTok posting failed: The access token is invalid''),
      s0\<lparr>log := [ttInitRequest ''token-1'' videoContent noOptions]\<rparr>) \<and>
   fst (postToTikTok (envWith acceptAll) (userOf liveAccount expiredAccount) videoContent
          noOptions s0) =
     Inr \<lparr>res_success = True, res_platform = ''tiktok'', res_postId = ''v_pub_1'',
          res_postUrl = ''https://www.tiktok.com/@studio/video/v_pub_1'',
          res_timestamp = 1700000005000\<rparr> \<and>
   length (log (snd (postToTikTok (envWith acceptAll) (userOf liveAccount expiredAccount)
                       videoContent noOptions s0))) = 3"
proof -
  have acct: "tiktok (socialAccounts (userOf liveAccount expiredAccount)) = Some expiredAccount"
    "connected expiredAccount" "isBefore (expiresAt expiredAccount) (clock s0)"
    "truthy (accessToken expiredAccount)" "tpl (accessToken expiredAccount) = ''token-1''"
    "tpl (username expiredAccount) = ''studio''"
    by (simp_all add: userOf_def expiredAccount_def liveAccount_def isBefore_def s0_def
        truthy_def tpl_def)
  have rej: "postToTikTok (envWith rejectAll) (userOf liveAccount expiredAccount) videoContent
               noOptions s0 =
     (Inl (mkError ''TikTok posting failed: The access token is invalid''),
      s0\<lparr>log := [ttInitRequest ''token-1'' videoContent noOptions]\<rparr>)"
    by (simp add: postToTikTok_def acct videoContent_def envWith_def rejectAll_def
        catchWrap_def andThen_def axios_def errText_def s0_def Let_def)
  have acc: "postToTikTok (envWith acceptAll) (userOf liveAccount expiredAccount) videoContent
               noOptions s0 =
     (Inr \<lparr>res_success = True, res_platform = ''tiktok'', res_postId = ''v_pub_1'',
          res_postUrl = ''https://www.tiktok.com/@studio/video/v_pub_1'',
          res_timestamp = 1700000005000\<rparr>,
      \<lparr>log = [ttInitRequest ''token-1'' videoContent noOptions,
              ttUploadRequest ''https://upload.example.org/v_pub_1'' ''video-bytes'',
              ttStatusRequest ''v_pub_1'' ''token-1''],
       clock = 1700000005000\<rparr>)"
    by (simp add: postToTikTok_def acct videoContent_def envWith_def acceptAll_def okResponse_def
        catchWrap_def andThen_def axios_def sleep_def s0_def ttPoll.simps ttMaxAttempts_def Let_def)
  show ?thesis
    using acct rej acc by simp
qed

subsection \<open>Publishing to both platforms\<close>

text \<open>
  Claim C3. In a publish to both platforms in which one platform succeeds and the
  other fails, the aggregate holds the full result of the platform that succeeded,
  null for the other, and exactly one entry in \<open>errors\<close>, with the name of the failing
  platform and the message of its error. The attempt of each platform is the
  single-platform call with the same arguments, and both attempts are always made:
  the TikTok attempt starts from the state the Instagram attempt left, whether that
  attempt returned or threw.
\<close>

theorem partial_failure_is_aggregated:
  "(postToInstagram E u c opts s = (Inr r, s1) \<and> postToTikTok E u c opts s1 = (Inl e, s2) \<longrightarrow>
      postToBoth E u c opts s =
        (Both (Some (Single r)) None [\<lparr>pe_platform = ''tiktok'', pe_error = message e\<rparr>], s2)) \<and>
   (postToInstagram E u c opts s = (Inl e, s1) \<and> postToTikTok E u c opts s1 = (Inr r, s2) \<longrightarrow>
      postToBoth E u c opts s =
        (Both None (Some (Single r)) [\<lparr>pe_platform = ''instagram'', pe_error = message e\<rparr>], s2)) \<and>
   (postWithProfile P E profileId c (opts\<lparr>opt_platform := Some ''instagram''\<rparr>) s = (Inr r', s1) \<and>
    postWithProfile P E profileId c (opts\<lparr>opt_platform := Some ''tiktok''\<rparr>) s1 = (Inl e, s2) \<longrightarrow>
      postToBothWithProfile P E profileId c opts s =
        (Inr (Both (Some r') None [\<lparr>pe_platform = ''tiktok'', pe_error = message e\<rparr>]), s2)) \<and>
   (postWithProfile P E profileId c (opts\<lparr>opt_platform := Some ''instagram''\<rparr>) s = (Inl e, s1) \<and>
    postWithProfile P E profileId c (opts\<lparr>opt_platform := Some ''tiktok''\<rparr>) s1 = (Inr r', s2) \<longrightarrow>
      postToBothWithProfile P E profileId c opts s =
        (Inr (Both None (Some r') [\<lparr>pe_platform = ''instagram'', pe_error = message e\<rparr>]), s2)) \<and>
   snd (postToBoth E u c opts s) =
     snd (postToTikTok E u c opts (snd (postToInstagram E u c opts s))) \<and>
   snd (postToBothWithProfile P E profileId c opts s) =
     snd (postWithProfile P E profileId c (opts\<lparr>opt_platform := Some ''tiktok''\<rparr>)
            (snd (postWithProfile P E profileId c (opts\<lparr>opt_platform := Some ''instagram''\<rparr>) s)))"
  by (simp add: postToBoth_def postToBothWithProfile.simps single_def tryPlatform_def
      split: prod.splits sum.splits)

lemma tiktok_rejects_non_video:
  assumes "tiktok (socialAccounts u) = Some acc" and "connected acc"
    and "truthy (accessToken acc)" and "mediaType c \<noteq> ''video''"
  shows "postToTikTok E u c opts s =
           (Inl (mkError ''TikTok posting failed: TikTok only supports video content''), s)"
  using assms
  by (simp add: postToTikTok_def catchWrap_def Let_def errText_def mkError_def)

lemma live_facts:
  "connected liveAccount" "truthy (accessToken liveAccount)"
  "tpl (accessToken liveAccount) = ''token-1''" "tpl (username liveAccount) = ''studio''"
  "acc_userId liveAccount = Some ''1789''" "\<not> isBefore (expiresAt liveAccount) (clock s0)"
  "\<not> connected disconnectedAccount" "\<not> isBefore (expiresAt liveAccount) 1700000000000"
  by (simp_all add: liveAccount_def disconnectedAccount_def truthy_def tpl_def isBefore_def s0_def)

lemma instagram_image_accepted:
  "instagram (socialAccounts u) = Some liveAccount \<Longrightarrow>
   fst (postToInstagram (envWith acceptAll) u imageContent noOptions s0) = Inr igResult0"
  by (simp add: postToInstagram_def live_facts imageContent_def videoContent_def
      postInstagramImage_def igPublishAndLink_def catchWrap_def andThen_def axios_def
      envWith_def acceptAll_def okResponse_def igResult0_def s0_def Let_def)

lemma tiktok_video_accepted:
  "tiktok (socialAccounts u) = Some liveAccount \<Longrightarrow>
   fst (postToTikTok (envWith acceptAll) u videoContent noOptions s0) = Inr ttResult0"
  by (simp add: postToTikTok_def live_facts videoContent_def envWith_def acceptAll_def
      okResponse_def catchWrap_def andThen_def axios_def sleep_def s0_def ttPoll.simps
      ttMaxAttempts_def Let_def ttResult0_def)

lemma instagram_disconnected:
  "instagram (socialAccounts u) = Some disconnectedAccount \<Longrightarrow>
   postToInstagram E u c opts s = (Inl (mkError ''Instagram account not connected''), s)"
  by (simp add: postToInstagram_def live_facts)

lemma oneProfile_platform:
  "postWithProfile oneProfile E ''p1'' c (opts\<lparr>opt_platform := Some ''instagram''\<rparr>) s =
     single (postToInstagram E (userWithCredentials ''instagram'' liveAccount) c
               (opts\<lparr>opt_platform := Some ''instagram''\<rparr>) s)"
  "postWithProfile oneProfile E ''p1'' c (opts\<lparr>opt_platform := Some ''tiktok''\<rparr>) s =
     single (postToTikTok E (userWithCredentials ''tiktok'' liveAccount) c
               (opts\<lparr>opt_platform := Some ''tiktok''\<rparr>) s)"
  by (simp_all add: postWithProfile.simps oneProfile_def getCredentialsForProfile_def
      resolvePlatform_def orElse_def tpl_def live_facts)

lemma tiktokOnlyProfile_platform:
  "postWithProfile tiktokOnlyProfile E ''p2'' c (opts\<lparr>opt_platform := Some ''instagram''\<rparr>) s =
     (Inl (mkError ''instagram is not connected for this profile''), s)"
  "postWithProfile tiktokOnlyProfile E ''p2'' c (opts\<lparr>opt_platform := Some ''tiktok''\<rparr>) s =
     single (postToTikTok E (userWithCredentials ''tiktok'' liveAccount) c
               (opts\<lparr>opt_platform := Some ''tiktok''\<rparr>) s)"
  by (simp_all add: postWithProfile.simps tiktokOnlyProfile_def getCredentialsForProfile_def
      resolvePlatform_def orElse_def tpl_def live_facts)

theorem partial_failure_is_aggregated_witness:
  "fst (postToInstagram (envWith acceptAll) (userOf liveAccount liveAccount) imageContent
          noOptions s0) = Inr igResult0 \<and>
   fst (postToTikTok (envWith acceptAll) (userOf liveAccount liveAccount) imageContent noOptions
          (snd (postToInstagram (envWith acceptAll) (userOf liveAccount liveAccount) imageContent
                  noOptions s0))) =
     Inl (mkError ''TikTok posting failed: TikTok only supports video content'') \<and>
   fst (postToInstagram (envWith acceptAll) (userOf disconnectedAccount liveAccount) videoContent
          noOptions s0) = Inl (mkError ''Instagram account not connected'') \<and>
   fst (postToTikTok (envWith acceptAll) (userOf disconnectedAccount liveAccount) videoContent
          noOptions s0) = Inr ttResult0 \<and>
   fst (postToBoth (envWith acceptAll) (userOf liveAccount liveAccount) imageContent noOptions s0) =
     Both (Some (Single igResult0)) None
       [\<lparr>pe_platform = ''tiktok'',
         pe_error = ''TikTok posting failed: TikTok only supports video content''\<rparr>] \<and>
   fst (postToBoth (envWith acceptAll) (userOf disconnectedAccount liveAccount) videoContent
          noOptions s0) =
     Both None (Some (Single ttResult0))
       [\<lparr>pe_platform = ''instagram'', pe_error = ''Instagram account not connected''\<rparr>] \<and>
   fst (postToBothWithProfile oneProfile (envWith acceptAll) ''p1'' imageContent noOptions s0) =
     Inr (Both (Some (Single igResult0)) None
            [\<lparr>pe_platform = ''tiktok'',
              pe_error = ''TikTok posting failed: TikTok only supports video content''\<rparr>]) \<and>
   fst (postToBothWithProfile tiktokOnlyProfile (envWith acceptAll) ''p2'' videoContent
          noOptions s0) =
     Inr (Both None (Some (Single ttResult0))
            [\<lparr>pe_platform = ''instagram'',
              pe_error = ''instagram is not connected for this profile''\<rparr>])"
proof -
  let ?E = "envWith acceptAll"
  let ?u1 = "userOf liveAccount liveAccount"
  let ?u2 = "userOf disconnectedAccount liveAccount"
  let ?ig = "\<lambda>opts. noOptions\<lparr>opt_platform := Some ''instagram''\<rparr>"
  have img: "mediaType imageContent \<noteq> ''video''"
    by (simp add: imageContent_def)
  \<comment> \<open>Instagram succeeds, TikTok fails\<close>
  let ?x1 = "postToInstagram ?E ?u1 imageContent noOptions s0"
  have a1: "?x1 = (Inr igResult0, snd ?x1)"
    using instagram_image_accepted [of ?u1] by (simp add: userOf_def prod_eq_iff)
  have a2: "postToTikTok ?E ?u1 imageContent noOptions (snd ?x1) =
              (Inl (mkError ''TikTok posting failed: TikTok only supports video content''), snd ?x1)"
    by (rule tiktok_rejects_non_video [OF _ live_facts(1) live_facts(2) img])
       (simp add: userOf_def)
  \<comment> \<open>Instagram fails, TikTok succeeds\<close>
  have b1: "postToInstagram ?E ?u2 videoContent noOptions s0 =
              (Inl (mkError ''Instagram account not connected''), s0)"
    by (rule instagram_disconnected) (simp add: userOf_def)
  let ?y2 = "postToTikTok ?E ?u2 videoContent noOptions s0"
  have b2: "?y2 = (Inr ttResult0, snd ?y2)"
    using tiktok_video_accepted [of ?u2] by (simp add: userOf_def prod_eq_iff)
  \<comment> \<open>the same through a profile\<close>
  let ?oi = "noOptions\<lparr>opt_platform := Some ''instagram''\<rparr>"
  let ?ot = "noOptions\<lparr>opt_platform := Some ''tiktok''\<rparr>"
  let ?x3 = "postWithProfile oneProfile ?E ''p1'' imageContent ?oi s0"
  have x3: "fst (postToInstagram ?E (userWithCredentials ''instagram'' liveAccount) imageContent ?oi s0)
              = Inr igResult0"
    by (simp add: postToInstagram_def live_facts imageContent_def videoContent_def
      postInstagramImage_def igPublishAndLink_def catchWrap_def andThen_def axios_def
      envWith_def acceptAll_def okResponse_def igResult0_def s0_def Let_def userWithCredentials_def
      noOptions_def)
  have c1: "?x3 = (Inr (Single igResult0), snd ?x3)"
    using x3 by (simp add: oneProfile_platform single_def prod_eq_iff split: prod.splits sum.splits)
  have c2: "postWithProfile oneProfile ?E ''p1'' imageContent ?ot (snd ?x3) =
              (Inl (mkError ''TikTok posting failed: TikTok only supports video content''), snd ?x3)"
    using tiktok_rejects_non_video [of "userWithCredentials ''tiktok'' liveAccount" liveAccount
        imageContent ?E ?ot "snd ?x3"] live_facts img
    by (simp add: oneProfile_platform single_def userWithCredentials_def)
  have d1: "postWithProfile tiktokOnlyProfile ?E ''p2'' videoContent ?oi s0 =
              (Inl (mkError ''instagram is not connected for this profile''), s0)"
    by (simp add: tiktokOnlyProfile_platform)
  let ?y4 = "postWithProfile tiktokOnlyProfile ?E ''p2'' videoContent ?ot s0"
  have y4: "fst (postToTikTok ?E (userWithCredentials ''tiktok'' liveAccount) videoContent ?ot s0)
              = Inr ttResult0"
    by (simp add: postToTikTok_def live_facts videoContent_def envWith_def acceptAll_def
      okResponse_def catchWrap_def andThen_def axios_def sleep_def s0_def ttPoll.simps
      ttMaxAttempts_def Let_def ttResult0_def userWithCredentials_def noOptions_def)
  have d2: "?y4 = (Inr (Single ttResult0), snd ?y4)"
    using y4 by (simp add: tiktokOnlyProfile_platform single_def prod_eq_iff
        split: prod.splits sum.splits)
  note t1 = partial_failure_is_aggregated [where E = ?E and u = ?u1 and c = imageContent
      and opts = noOptions and s = s0 and r = igResult0 and ?s1.0 = "snd ?x1"
      and e = "mkError ''TikTok posting failed: TikTok only supports video content''"
      and ?s2.0 = "snd ?x1"]
  note t2 = partial_failure_is_aggregated [where E = ?E and u = ?u2 and c = videoContent
      and opts = noOptions and s = s0 and r = ttResult0 and ?s1.0 = s0
      and e = "mkError ''Instagram account not connected''" and ?s2.0 = "snd ?y2"]
  note t3 = partial_failure_is_aggregated [where E = ?E and P = oneProfile and profileId = "''p1''"
      and c = imageContent and opts = noOptions and s = s0 and r' = "Single igResult0"
      and ?s1.0 = "snd ?x3"
      and e = "mkError ''TikTok posting failed: TikTok only supports video content''"
      and ?s2.0 = "snd ?x3"]
  note t4 = partial_failure_is_aggregated [where E = ?E and P = tiktokOnlyProfile
      and profileId = "''p2''" and c = videoContent and opts = noOptions and s = s0
      and r' = "Single ttResult0" and ?s1.0 = s0
      and e = "mkError ''instagram is not connected for this profile''" and ?s2.0 = "snd ?y4"]
  have r1: "fst (postToBoth ?E ?u1 imageContent noOptions s0) =
     Both (Some (Single igResult0)) None
       [\<lparr>pe_platform = ''tiktok'',
         pe_error = ''TikTok posting failed: TikTok only supports video content''\<rparr>]"
    using t1 [THEN conjunct1, THEN mp, OF conjI, OF a1 a2] by (simp add: mkError_def)
  have r2: "fst (postToBoth ?E ?u2 videoContent noOptions s0) =
     Both None (Some (Single ttResult0))
       [\<lparr>pe_platform = ''instagram'', pe_error = ''Instagram account not connected''\<rparr>]"
    using t2 [THEN conjunct2, THEN conjunct1, THEN mp, OF conjI, OF b1 b2]
    by (simp add: mkError_def)
  have r3: "fst (postToBothWithProfile oneProfile ?E ''p1'' imageContent noOptions s0) =
     Inr (Both (Some (Single igResult0)) None
            [\<lparr>pe_platform = ''tiktok'',
              pe_error = ''TikTok posting failed: TikTok only supports video content''\<rparr>])"
    using t3 [THEN conjunct2, THEN conjunct2, THEN conjunct1, THEN mp, OF conjI, OF c1 c2]
    by (simp add: mkError_def)
  have r4: "fst (postToBothWithProfile tiktokOnlyProfile ?E ''p2'' videoContent
          noOptions s0) =
     Inr (Both None (Some (Single ttResult0))
            [\<lparr>pe_platform = ''instagram'',
              pe_error = ''instagram is not connected for this profile''\<rparr>])"
    using t4 [THEN conjunct2, THEN conjunct2, THEN conjunct2, THEN conjunct1, THEN mp,
        OF conjI, OF d1 d2]
    by (simp add: mkError_def)
  have h1: "fst ?x1 = Inr igResult0"
    using a1 by (simp add: prod_eq_iff)
  have h2: "fst (postToTikTok ?E ?u1 imageContent noOptions (snd ?x1)) =
              Inl (mkError ''TikTok posting failed: TikTok only supports video content'')"
    using a2 by simp
  have h3: "fst (postToInstagram ?E ?u2 videoContent noOptions s0) =
              Inl (mkError ''Instagram account not connected'')"
    using b1 by simp
  have h4: "fst ?y2 = Inr ttResult0"
    using b2 by (simp add: prod_eq_iff)
  from h1 h2 h3 h4 r1 r2 r3 r4 show ?thesis by simp
qed

subsection \<open>Failures are thrown\<close>

lemma run_any_append:
  "run_any Q R lg (xs @ ys) \<longleftrightarrow> run_any Q R lg xs \<or> run_any Q R (lg @ xs) ys"
  by (induction xs arbitrary: lg) auto

lemma sent_append: "log s' = log s @ reqs \<Longrightarrow> sent s s' = reqs"
  by (simp add: sent_def)

lemma igPublishAndLink_run:
  assumes "igPublishAndLink E uid tok cid s = (Inr r, s')"
  shows "res_success r \<and>
         (\<exists>reqs. log s' = log s @ reqs \<and>
            \<not> run_any wasRejected (remote E) (log s) reqs \<and>
            \<not> run_any (igStatusIs st) (remote E) (log s) reqs)"
  using assms
  by (auto simp: igPublishAndLink_def andThen_def axios_def Let_def wasRejected_def
      igStatusIs_def split: sum.splits)

lemma igPoll_run:
  "igPoll E cid tok b a s = (Inr b', s') \<Longrightarrow>
     \<exists>reqs. log s' = log s @ reqs \<and>
       \<not> run_any wasRejected (remote E) (log s) reqs \<and>
       \<not> run_any (igStatusIs ''ERROR'') (remote E) (log s) reqs \<and>
       (b' \<longrightarrow> b \<or> run_any (igStatusIs ''FINISHED'') (remote E) (log s) reqs)"
proof (induction "igMaxAttempts - a" arbitrary: a b s)
  case 0
  then have "igPoll E cid tok b a s = (Inr b, s)"
    by (subst igPoll.simps) simp
  with 0 show ?case by auto
next
  case (Suc d)
  show ?case
  proof (cases b)
    case True
    then have "igPoll E cid tok b a s = (Inr b, s)"
      by (subst igPoll.simps) simp
    with Suc.prems True show ?thesis by auto
  next
    case False
    let ?q = "igStatusRequest cid tok"
    let ?s1 = "(sleep 6000 s)\<lparr>log := log s @ [?q]\<rparr>"
    from Suc.hyps(2) have lt: "a < igMaxAttempts" by simp
    have d: "d = igMaxAttempts - (a + 1)" using Suc.hyps(2) by simp
    show ?thesis
    proof (cases "remote E (log s) ?q")
      case (Inl e)
      then have "igPoll E cid tok b a s = (Inl e, ?s1)"
        using False lt by (subst igPoll.simps) (simp add: axios_def)
      with Suc.prems show ?thesis by simp
    next
      case (Inr resp)
      consider (fin) "data_status_code resp = ''FINISHED''"
        | (err) "data_status_code resp = ''ERROR''"
        | (other) "data_status_code resp \<noteq> ''FINISHED''" "data_status_code resp \<noteq> ''ERROR''"
        by blast
      then show ?thesis
      proof cases
        case fin
        have "igPoll E cid tok b a s = igPoll E cid tok True (a + 1) ?s1"
          using False lt Inr fin by (subst igPoll.simps) (simp add: axios_def)
        with Suc.prems have "igPoll E cid tok True (a + 1) ?s1 = (Inr b', s')" by simp
        from Suc.hyps(1) [OF d this] obtain reqs where
          r: "log s' = log ?s1 @ reqs"
          "\<not> run_any wasRejected (remote E) (log ?s1) reqs"
          "\<not> run_any (igStatusIs ''ERROR'') (remote E) (log ?s1) reqs"
          by auto
        have "log s' = log s @ (?q # reqs)" using r(1) by simp
        moreover have "\<not> run_any wasRejected (remote E) (log s) (?q # reqs)"
          using r(2) Inr by (simp add: wasRejected_def)
        moreover have "\<not> run_any (igStatusIs ''ERROR'') (remote E) (log s) (?q # reqs)"
          using r(3) Inr fin by (simp add: igStatusIs_def)
        moreover have "run_any (igStatusIs ''FINISHED'') (remote E) (log s) (?q # reqs)"
          using Inr fin by (simp add: igStatusIs_def)
        ultimately show ?thesis by blast
      next
        case err
        have "igPoll E cid tok b a s = (Inl (mkError ''Video processing failed''), ?s1)"
          using False lt Inr err by (subst igPoll.simps) (simp add: axios_def)
        with Suc.prems show ?thesis by simp
      next
        case other
        have "igPoll E cid tok b a s = igPoll E cid tok b (a + 1) ?s1"
          using False lt Inr other by (subst igPoll.simps) (simp add: axios_def)
        with Suc.prems have "igPoll E cid tok b (a + 1) ?s1 = (Inr b', s')" by simp
        from Suc.hyps(1) [OF d this] obtain reqs where
          r: "log s' = log ?s1 @ reqs"
          "\<not> run_any wasRejected (remote E) (log ?s1) reqs"
          "\<not> run_any (igStatusIs ''ERROR'') (remote E) (log ?s1) reqs"
          "b' \<longrightarrow> b \<or> run_any (igStatusIs ''FINISHED'') (remote E) (log ?s1) reqs"
          by auto
        have "log s' = log s @ (?q # reqs)" using r(1) by simp
        moreover have "\<not> run_any wasRejected (remote E) (log s) (?q # reqs)"
          using r(2) Inr by (simp add: wasRejected_def)
        moreover have "\<not> run_any (igStatusIs ''ERROR'') (remote E) (log s) (?q # reqs)"
          using r(3) Inr other by (simp add: igStatusIs_def)
        moreover have "b' \<longrightarrow> b \<or> run_any (igStatusIs ''FINISHED'') (remote E) (log s) (?q # reqs)"
          using r(4) by auto
        ultimately show ?thesis by blast
      qed
    qed
  qed
qed

lemma postInstagramImage_run:
  assumes "postInstagramImage E uid tok c opts s = (Inr r, s')"
  shows "res_success r \<and>
         (\<exists>reqs. log s' = log s @ reqs \<and>
            \<not> run_any wasRejected (remote E) (log s) reqs \<and>
            \<not> run_any (igStatusIs ''ERROR'') (remote E) (log s) reqs)"
proof -
  let ?q = "igImageRequest E uid tok c opts"
  let ?s1 = "s\<lparr>log := log s @ [?q]\<rparr>"
  from assms obtain r0 where r0: "remote E (log s) ?q = Inr r0"
    and rest: "igPublishAndLink E uid tok (data_id r0) ?s1 = (Inr r, s')"
    by (auto simp: postInstagramImage_def catchWrap_def andThen_def axios_def
        split: sum.splits prod.splits)
  from igPublishAndLink_run [OF rest, of "''ERROR''"] obtain reqs where
    r: "res_success r" "log s' = log ?s1 @ reqs"
    "\<not> run_any wasRejected (remote E) (log ?s1) reqs"
    "\<not> run_any (igStatusIs ''ERROR'') (remote E) (log ?s1) reqs"
    by auto
  have "log s' = log s @ (?q # reqs)" using r(2) by simp
  moreover have "\<not> run_any wasRejected (remote E) (log s) (?q # reqs)"
    using r(3) r0 by (simp add: wasRejected_def)
  moreover have "\<not> run_any (igStatusIs ''ERROR'') (remote E) (log s) (?q # reqs)"
    using r(4) r0 by (simp add: igStatusIs_def igImageRequest_def igIsStatus_def)
  ultimately show ?thesis using r(1) by blast
qed

lemma postInstagramVideo_run:
  assumes "postInstagramVideo E uid tok c opts s = (Inr r, s')"
  shows "res_success r \<and>
         (\<exists>reqs. log s' = log s @ reqs \<and>
            \<not> run_any wasRejected (remote E) (log s) reqs \<and>
            \<not> run_any (igStatusIs ''ERROR'') (remote E) (log s) reqs \<and>
            run_any (igStatusIs ''FINISHED'') (remote E) (log s) reqs)"
proof -
  let ?q = "igVideoRequest E uid tok c opts"
  let ?s1 = "s\<lparr>log := log s @ [?q]\<rparr>"
  from assms obtain r0 s2 where r0: "remote E (log s) ?q = Inr r0"
    and poll: "igPoll E (data_id r0) tok False 0 ?s1 = (Inr True, s2)"
    and rest: "igPublishAndLink E uid tok (data_id r0) s2 = (Inr r, s')"
    by (auto simp: postInstagramVideo_def catchWrap_def andThen_def axios_def Let_def
        split: sum.splits prod.splits if_splits)
  from igPoll_run [OF poll] obtain xs where
    x: "log s2 = log ?s1 @ xs"
    "\<not> run_any wasRejected (remote E) (log ?s1) xs"
    "\<not> run_any (igStatusIs ''ERROR'') (remote E) (log ?s1) xs"
    "run_any (igStatusIs ''FINISHED'') (remote E) (log ?s1) xs"
    by auto
  from igPublishAndLink_run [OF rest, of "''ERROR''"] obtain ys where
    y: "res_success r" "log s' = log s2 @ ys"
    "\<not> run_any wasRejected (remote E) (log s2) ys"
    "\<not> run_any (igStatusIs ''ERROR'') (remote E) (log s2) ys"
    by auto
  have l: "log s' = log s @ (?q # xs @ ys)" "log s2 = (log s @ [?q]) @ xs"
    using x(1) y(2) by simp_all
  have "\<not> run_any wasRejected (remote E) (log s) (?q # xs @ ys)"
    using x(2) y(3) r0 l(2) by (simp add: wasRejected_def run_any_append)
  moreover have "\<not> run_any (igStatusIs ''ERROR'') (remote E) (log s) (?q # xs @ ys)"
    using x(3) y(4) r0 l(2) by (simp add: igStatusIs_def run_any_append)
  moreover have "run_any (igStatusIs ''FINISHED'') (remote E) (log s) (?q # xs @ ys)"
    using x(4) by (simp add: run_any_append)
  ultimately show ?thesis using y(1) l(1) by blast
qed

lemma postToInstagram_returns:
  assumes "postToInstagram E u c opts s = (Inr r, s')"
  shows "res_success r \<and> \<not> ig_expected_failure E u c s s'"
proof -
  from assms obtain acc where acc: "instagram (socialAccounts u) = Some acc" "connected acc"
    "truthy (accessToken acc)" "\<not> isBefore (expiresAt acc) (clock s)"
    by (auto simp: postToInstagram_def split: option.splits if_splits)
  from assms acc have mt: "mediaType c = ''image'' \<or> mediaType c = ''video''"
    by (auto simp: postToInstagram_def postInstagramCarousel_def Let_def split: if_splits)
  then show ?thesis
  proof
    assume img: "mediaType c = ''image''"
    with assms acc have "postInstagramImage E (acc_userId acc) (tpl (accessToken acc)) c opts s
                           = (Inr r, s')"
      by (simp add: postToInstagram_def Let_def)
    from postInstagramImage_run [OF this] img acc show ?thesis
      by (auto simp: ig_expected_failure_def sent_append)
  next
    assume vid: "mediaType c = ''video''"
    with assms acc have "postInstagramVideo E (acc_userId acc) (tpl (accessToken acc)) c opts s
                           = (Inr r, s')"
      by (simp add: postToInstagram_def Let_def)
    from postInstagramVideo_run [OF this] vid acc show ?thesis
      by (auto simp: ig_expected_failure_def sent_append)
  qed
qed

lemma ttPoll_run:
  "ttPoll E pid tok b a s = (Inr b', s') \<Longrightarrow>
     \<exists>reqs. log s' = log s @ reqs \<and>
       \<not> run_any wasRejected (remote E) (log s) reqs \<and>
       \<not> run_any (ttStatusIs ''FAILED'') (remote E) (log s) reqs \<and>
       (b' \<longrightarrow> b \<or> run_any (ttStatusIs ''PUBLISH_COMPLETE'') (remote E) (log s) reqs)"
proof (induction "ttMaxAttempts - a" arbitrary: a b s)
  case 0
  then have "ttPoll E pid tok b a s = (Inr b, s)"
    by (subst ttPoll.simps) simp
  with 0 show ?case by auto
next
  case (Suc d)
  show ?case
  proof (cases b)
    case True
    then have "ttPoll E pid tok b a s = (Inr b, s)"
      by (subst ttPoll.simps) simp
    with Suc.prems True show ?thesis by auto
  next
    case False
    let ?q = "ttStatusRequest pid tok"
    let ?s1 = "(sleep 5000 s)\<lparr>log := log s @ [?q]\<rparr>"
    from Suc.hyps(2) have lt: "a < ttMaxAttempts" by simp
    have d: "d = ttMaxAttempts - (a + 1)" using Suc.hyps(2) by simp
    show ?thesis
    proof (cases "remote E (log s) ?q")
      case (Inl e)
      then have "ttPoll E pid tok b a s = (Inl e, ?s1)"
        using False lt by (subst ttPoll.simps) (simp add: axios_def)
      with Suc.prems show ?thesis by simp
    next
      case (Inr resp)
      consider (fin) "data_status resp = ''PUBLISH_COMPLETE''"
        | (err) "data_status resp = ''FAILED''"
        | (other) "data_status resp \<noteq> ''PUBLISH_COMPLETE''" "data_status resp \<noteq> ''FAILED''"
        by blast
      then show ?thesis
      proof cases
        case fin
        have "ttPoll E pid tok b a s = ttPoll E pid tok True (a + 1) ?s1"
          using False lt Inr fin by (subst ttPoll.simps) (simp add: axios_def)
        with Suc.prems have "ttPoll E pid tok True (a + 1) ?s1 = (Inr b', s')" by simp
        from Suc.hyps(1) [OF d this] obtain reqs where
          r: "log s' = log ?s1 @ reqs"
          "\<not> run_any wasRejected (remote E) (log ?s1) reqs"
          "\<not> run_any (ttStatusIs ''FAILED'') (remote E) (log ?s1) reqs"
          by auto
        have "log s' = log s @ (?q # reqs)" using r(1) by simp
        moreover have "\<not> run_any wasRejected (remote E) (log s) (?q # reqs)"
          using r(2) Inr by (simp add: wasRejected_def)
        moreover have "\<not> run_any (ttStatusIs ''FAILED'') (remote E) (log s) (?q # reqs)"
          using r(3) Inr fin by (simp add: ttStatusIs_def)
        moreover have "run_any (ttStatusIs ''PUBLISH_COMPLETE'') (remote E) (log s) (?q # reqs)"
          using Inr fin by (simp add: ttStatusIs_def)
        ultimately show ?thesis by blast
      next
        case err
        have "ttPoll E pid tok b a s = (Inl (mkError ''TikTok publish failed''), ?s1)"
          using False lt Inr err by (subst ttPoll.simps) (simp add: axios_def)
        with Suc.prems show ?thesis by simp
      next
        case other
        have "ttPoll E pid tok b a s = ttPoll E pid tok b (a + 1) ?s1"
          using False lt Inr other by (subst ttPoll.simps) (simp add: axios_def)
        with Suc.prems have "ttPoll E pid tok b (a + 1) ?s1 = (Inr b', s')" by simp
        from Suc.hyps(1) [OF d this] obtain reqs where
          r: "log s' = log ?s1 @ reqs"
          "\<not> run_any wasRejected (remote E) (log ?s1) reqs"
          "\<not> run_any (ttStatusIs ''FAILED'') (remote E) (log ?s1) reqs"
          "b' \<longrightarrow> b \<or> run_any (ttStatusIs ''PUBLISH_COMPLETE'') (remote E) (log ?s1) reqs"
          by auto
        have "log s' = log s @ (?q # reqs)" using r(1) by simp
        moreover have "\<not> run_any wasRejected (remote E) (log s) (?q # reqs)"
          using r(2) Inr by (simp add: wasRejected_def)
        moreover have "\<not> run_any (ttStatusIs ''FAILED'') (remote E) (log s) (?q # reqs)"
          using r(3) Inr other by (simp add: ttStatusIs_def)
        moreover have "b' \<longrightarrow> b \<or> run_any (ttStatusIs ''PUBLISH_COMPLETE'') (remote E) (log s) (?q # reqs)"
          using r(4) by auto
        ultimately show ?thesis by blast
      qed
    qed
  qed
qed


lemma postToTikTok_returns:
  assumes "postToTikTok E u c opts s = (Inr r, s')"
  shows "res_success r \<and> \<not> tt_expected_failure E u c s s'"
proof -
  from assms obtain acc where acc: "tiktok (socialAccounts u) = Some acc" "connected acc"
    "truthy (accessToken acc)" "mediaType c = ''video''"
    by (auto simp: postToTikTok_def catchWrap_def Let_def split: option.splits if_splits)
  from assms acc obtain buf where buf: "readFileSync E (mediaUrl c) = Inr buf"
    by (cases "readFileSync E (mediaUrl c)")
       (auto simp: postToTikTok_def catchWrap_def andThen_def Let_def split: sum.splits prod.splits)
  let ?tok = "tpl (accessToken acc)"
  let ?q0 = "ttInitRequest ?tok c opts"
  note un = postToTikTok_ready [OF acc buf, of opts s]
  from assms obtain r0 where r0: "remote E (log s) ?q0 = Inr r0"
    unfolding un
    by (auto simp: catchWrap_def andThen_def axios_def split: sum.splits prod.splits)
  let ?q1 = "ttUploadRequest (data_upload_url r0) buf"
  from assms r0 obtain r1 where r1: "remote E (log s @ [?q0]) ?q1 = Inr r1"
    unfolding un
    by (auto simp: catchWrap_def andThen_def axios_def split: sum.splits prod.splits)
  let ?s2 = "s\<lparr>log := log s @ [?q0, ?q1]\<rparr>"
  from assms r0 r1 have poll: "ttPoll E (data_publish_id r0) ?tok False 0 ?s2 = (Inr True, s')"
    and succ: "res_success r"
    unfolding un
    by (auto simp: catchWrap_def andThen_def axios_def split: sum.splits prod.splits if_splits)
  from ttPoll_run [OF poll] obtain xs where
    x: "log s' = log ?s2 @ xs"
    "\<not> run_any wasRejected (remote E) (log ?s2) xs"
    "\<not> run_any (ttStatusIs ''FAILED'') (remote E) (log ?s2) xs"
    "run_any (ttStatusIs ''PUBLISH_COMPLETE'') (remote E) (log ?s2) xs"
    by auto
  have l: "log s' = log s @ (?q0 # ?q1 # xs)"
    using x(1) by simp
  have "\<not> run_any wasRejected (remote E) (log s) (?q0 # ?q1 # xs)"
    using x(2) r0 r1 by (simp add: wasRejected_def)
  moreover have "\<not> run_any (ttStatusIs ''FAILED'') (remote E) (log s) (?q0 # ?q1 # xs)"
    using x(3) r0 r1 by (simp add: ttStatusIs_def)
  moreover have "run_any (ttStatusIs ''PUBLISH_COMPLETE'') (remote E) (log s) (?q0 # ?q1 # xs)"
    using x(4) by simp
  ultimately show ?thesis
    using succ acc sent_append [OF l] by (simp add: tt_expected_failure_def)
qed

text \<open>
  Claim C4, as stated, on a TikTok account that is not connected: the publish does
  not return a failure result, it throws (\<open>Inl\<close>) the error
  \<open>TikTok posting failed: TikTok account not connected\<close>.
\<close>

theorem publish_throws_counterexample:
  "tiktok (socialAccounts (userOf liveAccount disconnectedAccount)) = Some disconnectedAccount \<and>
   \<not> connected disconnectedAccount \<and>
   postToTikTok (envWith acceptAll) (userOf liveAccount disconnectedAccount) videoContent
     noOptions s0 =
     (Inl (mkError ''TikTok posting failed: TikTok account not connected''), s0)"
  by (simp add: postToTikTok_def userOf_def live_facts catchWrap_def errText_def mkError_def)

text \<open>
  Claim C4, amended. For every expected failure during a single-platform publish
  (credentials absent, not connected, without token or, on Instagram, expired;
  unsupported media kind; a request rejected by the remote; remote-side processing
  failure; poll budget exhausted), the publish operation throws an error to its
  caller. It has no failure result: whenever it returns, the result has
  \<open>success = true\<close>.
\<close>

theorem failures_are_thrown:
  "(postToInstagram E u c opts s = (res, s') \<and> ig_expected_failure E u c s s' \<longrightarrow>
      (\<exists>e. res = Inl e)) \<and>
   (postToTikTok E u c opts s = (res, s') \<and> tt_expected_failure E u c s s' \<longrightarrow>
      (\<exists>e. res = Inl e)) \<and>
   (postToInstagram E u c opts s = (Inr r, s') \<longrightarrow> res_success r) \<and>
   (postToTikTok E u c opts s = (Inr r, s') \<longrightarrow> res_success r)"
proof (intro conjI impI)
  assume a: "postToInstagram E u c opts s = (res, s') \<and> ig_expected_failure E u c s s'"
  show "\<exists>e. res = Inl e"
  proof (cases res)
    case (Inl e)
    then show ?thesis by blast
  next
    case (Inr x)
    with a postToInstagram_returns [of E u c opts s x s'] show ?thesis by simp
  qed
next
  assume a: "postToTikTok E u c opts s = (res, s') \<and> tt_expected_failure E u c s s'"
  show "\<exists>e. res = Inl e"
  proof (cases res)
    case (Inl e)
    then show ?thesis by blast
  next
    case (Inr x)
    with a postToTikTok_returns [of E u c opts s x s'] show ?thesis by simp
  qed
next
  assume "postToInstagram E u c opts s = (Inr r, s')"
  then show "res_success r" using postToInstagram_returns by blast
next
  assume "postToTikTok E u c opts s = (Inr r, s')"
  then show "res_success r" using postToTikTok_returns by blast
qed

theorem failures_are_thrown_witness:
  "ig_expected_failure (envWith acceptAll) (userOf expiredAccount liveAccount) imageContent s0 s0 \<and>
   postToInstagram (envWith acceptAll) (userOf expiredAccount liveAccount) imageContent noOptions s0 =
     (Inl (mkError ''Instagram access token expired. Please reconnect your account.''), s0) \<and>
   tt_expected_failure (envWith rejectAll) (userOf liveAccount liveAccount) videoContent s0
     (s0\<lparr>log := [ttInitRequest ''token-1'' videoContent noOptions]\<rparr>) \<and>
   postToTikTok (envWith rejectAll) (userOf liveAccount liveAccount) videoContent noOptions s0 =
     (Inl (mkError ''TikTok posting failed: The access token is invalid''),
      s0\<lparr>log := [ttInitRequest ''token-1'' videoContent noOptions]\<rparr>) \<and>
   fst (postToInstagram (envWith acceptAll) (userOf liveAccount liveAccount) imageContent
          noOptions s0) = Inr igResult0 \<and>
   res_success igResult0 \<and>
   fst (postToTikTok (envWith acceptAll) (userOf liveAccount liveAccount) videoContent
          noOptions s0) = Inr ttResult0 \<and>
   res_success ttResult0"
proof -
  let ?A = "envWith acceptAll"
  let ?R = "envWith rejectAll"
  let ?u = "userOf liveAccount liveAccount"
  let ?ux = "userOf expiredAccount liveAccount"
  let ?init = "ttInitRequest ''token-1'' videoContent noOptions"
  have ex: "instagram (socialAccounts ?ux) = Some expiredAccount" "connected expiredAccount"
    "truthy (accessToken expiredAccount)" "isBefore (expiresAt expiredAccount) (clock s0)"
    by (simp_all add: userOf_def expiredAccount_def liveAccount_def truthy_def isBefore_def s0_def)
  have f1: "ig_expected_failure ?A ?ux imageContent s0 s0"
    by (simp add: ig_expected_failure_def ex)
  have p1: "postToInstagram ?A ?ux imageContent noOptions s0 =
     (Inl (mkError ''Instagram access token expired. Please reconnect your account.''), s0)"
    by (simp add: postToInstagram_def ex)
  have f2: "tt_expected_failure ?R ?u videoContent s0 (s0\<lparr>log := [?init]\<rparr>)"
    by (simp add: tt_expected_failure_def sent_def s0_def wasRejected_def rejectAll_def envWith_def)
  have p2: "postToTikTok ?R ?u videoContent noOptions s0 =
     (Inl (mkError ''TikTok posting failed: The access token is invalid''), s0\<lparr>log := [?init]\<rparr>)"
    by (simp add: postToTikTok_def userOf_def live_facts videoContent_def envWith_def rejectAll_def
        catchWrap_def andThen_def axios_def errText_def s0_def Let_def)
  let ?x3 = "postToInstagram ?A ?u imageContent noOptions s0"
  have p3: "?x3 = (Inr igResult0, snd ?x3)"
    using instagram_image_accepted [of ?u] by (simp add: userOf_def prod_eq_iff)
  let ?x4 = "postToTikTok ?A ?u videoContent noOptions s0"
  have p4: "?x4 = (Inr ttResult0, snd ?x4)"
    using tiktok_video_accepted [of ?u] by (simp add: userOf_def prod_eq_iff)
  note t1 = failures_are_thrown [where E = ?A and u = ?ux and c = imageContent and opts = noOptions
      and s = s0 and s' = s0
      and res = "Inl (mkError ''Instagram access token expired. Please reconnect your account.'')"]
  note t2 = failures_are_thrown [where E = ?R and u = ?u and c = videoContent and opts = noOptions
      and s = s0 and s' = "s0\<lparr>log := [?init]\<rparr>"
      and res = "Inl (mkError ''TikTok posting failed: The access token is invalid'')"]
  note t3 = failures_are_thrown [where E = ?A and u = ?u and c = imageContent and opts = noOptions
      and s = s0 and s' = "snd ?x3" and r = igResult0]
  note t4 = failures_are_thrown [where E = ?A and u = ?u and c = videoContent and opts = noOptions
      and s = s0 and s' = "snd ?x4" and r = ttResult0]
  have w1: "\<exists>e. (Inl (mkError ''Instagram access token expired. Please reconnect your account.'')
                  :: js_error + post_result) = Inl e"
    using t1 [THEN conjunct1, THEN mp, OF conjI, OF p1 f1] .
  have w2: "\<exists>e. (Inl (mkError ''TikTok posting failed: The access token is invalid'')
                  :: js_error + post_result) = Inl e"
    using t2 [THEN conjunct2, THEN conjunct1, THEN mp, OF conjI, OF p2 f2] .
  have w3: "res_success igResult0"
    using t3 [THEN conjunct2, THEN conjunct2, THEN conjunct1, THEN mp, OF p3] .
  have w4: "res_success ttResult0"
    using t4 [THEN conjunct2, THEN conjunct2, THEN conjunct2, THEN mp, OF p4] .
  show ?thesis
    using f1 p1 f2 p2 p3 p4 w1 w2 w3 w4 by (simp add: prod_eq_iff)
qed

end
